theory Spec2Isabelle
  imports Main "HOL-Library.Word"
begin

unbundle bit_operations_syntax

section \<open>Data model of ax-insert.cpp\<close>

text \<open>
  A \<open>std::string\<close> is a list of bytes, a \<open>UniChar\<close> is one UTF-16 code unit.
  \<open>size_t\<close> values are naturals. Every sum the code forms is bounded by
  \<open>text.length()\<close> (the loop keeps \<open>position + currentChunkSize \<le> textLength\<close>), so
  additions do not wrap; the two subtractions of \<open>adjustChunkSize\<close> can wrap and are
  written out in \<open>size_sub\<close>.
\<close>

type_synonym byte = "8 word"
type_synonym UniChar = "16 word"
type_synonym CGEventSourceRef = "nat option"

definition size_sub :: "nat \<Rightarrow> nat \<Rightarrow> nat" where
  "size_sub a b = (if b \<le> a then a - b else a + 2 ^ 64 - b)"

text \<open>
  What ends a call without a result is a value: the undefined behaviour of reading
  \<open>text[endPosition - 1]\<close> with \<open>endPosition = 0\<close> and of dividing by
  \<open>chunkSize = 0\<close> in the progress message, and the JavaScript exceptions of the
  binding (\<open>TypeError\<close> for a missing or non-object argument, \<open>StringExpected\<close> when
  \<open>Utf8Value\<close> is asked of a value that is not a string).
\<close>

datatype fault = OutOfRangeRead | DivisionByZero | TypeError | StringExpected

text \<open>
  A keyboard event carries its event source, the key-down flag and the Unicode code unit
  set by \<open>CGEventKeyboardSetUnicodeString\<close> (the virtual key is always 0).
\<close>

datatype CGEvent = KeyboardEvent CGEventSourceRef bool UniChar

text \<open>
  The messages written to \<open>std::cout\<close> and \<open>std::cerr\<close>, one constructor per message, in
  the order of the source. \<open>ChunkProgress\<close> carries the chunk number, the expected number
  of chunks, the position and the adjusted chunk size; \<open>InsertTextStart\<close> and
  \<open>SimulateStart\<close> carry the length of the text.
\<close>

datatype message =
    KeyboardNotInitialized
  | ChunkProgress nat nat nat nat
  | ChunkFailed
  | CFStringFailed
  | KeyboardSystemInitialized
  | InsertTextStart nat
  | SimulateStart nat
  | SimulateInitFailed
  | SimulateSucceeded
  | SimulateFailed

text \<open>What the process does to the outside, in order.\<close>

datatype effect = Post CGEvent | Sleep nat | Log message

text \<open>The object: \<open>_source\<close> is \<open>source_ref\<close> (\<open>None\<close> is NULL), \<open>_isInitialized\<close> is \<open>isInitialized\<close>.\<close>

record KeyboardInputSystem =
  source_ref :: CGEventSourceRef
  isInitialized :: bool

text \<open>
  The platform calls are parameters: \<open>CFStringCreateWithCString\<close> gives the UTF-16 code
  units of a C string or fails (\<open>None\<close> is the NULL result); the n-th call of
  \<open>CGEventCreateKeyboardEvent\<close> and of \<open>CGEventSourceCreate\<close> succeeds or returns NULL.
\<close>

record platform =
  CFStringCreateWithCString :: "byte list \<Rightarrow> UniChar list option"
  event_created :: "nat \<Rightarrow> bool"
  source_created :: "nat \<Rightarrow> bool"

text \<open>
  The state of the process and of the system around it: the effects so far, the number
  of calls made to the two creation functions, the event sources created and not yet
  released, and the global \<open>gKeyboardSystem\<close> (\<open>None\<close> is \<open>nullptr\<close>).
\<close>

record world =
  trace :: "effect list"
  event_calls :: nat
  source_calls :: nat
  live_sources :: "nat list"
  gKeyboardSystem :: "KeyboardInputSystem option"

definition emit :: "effect \<Rightarrow> world \<Rightarrow> world" where
  "emit e w = w\<lparr>trace := trace w @ [e]\<rparr>"

definition usleep :: "nat \<Rightarrow> world \<Rightarrow> world" where
  "usleep n w = emit (Sleep n) w"

definition CGEventPost :: "CGEvent \<Rightarrow> world \<Rightarrow> world" where
  "CGEventPost e w = emit (Post e) w"

definition CGEventCreateKeyboardEvent :: "platform \<Rightarrow> world \<Rightarrow> bool \<times> world" where
  "CGEventCreateKeyboardEvent P w =
     (event_created P (event_calls w), w\<lparr>event_calls := event_calls w + 1\<rparr>)"

definition CGEventSourceCreate :: "platform \<Rightarrow> world \<Rightarrow> CGEventSourceRef \<times> world" where
  "CGEventSourceCreate P w =
     (if source_created P (source_calls w)
      then (Some (source_calls w),
            w\<lparr>source_calls := source_calls w + 1,
              live_sources := source_calls w # live_sources w\<rparr>)
      else (None, w\<lparr>source_calls := source_calls w + 1\<rparr>))"

definition CFRelease_source :: "nat \<Rightarrow> world \<Rightarrow> world" where
  "CFRelease_source h w = w\<lparr>live_sources := removeAll h (live_sources w)\<rparr>"

text \<open>The events posted and the messages written, read off the trace.\<close>

fun posted_of :: "effect list \<Rightarrow> CGEvent list" where
  "posted_of [] = []"
| "posted_of (Post e # es) = e # posted_of es"
| "posted_of (_ # es) = posted_of es"

fun messages_of :: "effect list \<Rightarrow> message list" where
  "messages_of [] = []"
| "messages_of (Log m # es) = m # messages_of es"
| "messages_of (_ # es) = messages_of es"

definition posted :: "world \<Rightarrow> CGEvent list" where
  "posted w = posted_of (trace w)"

definition messages :: "world \<Rightarrow> message list" where
  "messages w = messages_of (trace w)"

section \<open>KeyboardInputSystem\<close>

definition initialize ::
  "platform \<Rightarrow> KeyboardInputSystem \<Rightarrow> world \<Rightarrow> bool \<times> KeyboardInputSystem \<times> world" where
  "initialize P k w =
     (case CGEventSourceCreate P w of
        (src, w') \<Rightarrow>
          (src \<noteq> None, k\<lparr>source_ref := src, isInitialized := (src \<noteq> None)\<rparr>, w'))"

text \<open>The constructor: \<open>_source(NULL), _isInitialized(false)\<close>, then \<open>initialize()\<close>.\<close>

definition new_KeyboardInputSystem :: "platform \<Rightarrow> world \<Rightarrow> KeyboardInputSystem \<times> world" where
  "new_KeyboardInputSystem P w =
     (case initialize P \<lparr>source_ref = None, isInitialized = False\<rparr> w of
        (_, k, w') \<Rightarrow> (k, w'))"

text \<open>The destructor releases the event source when there is one.\<close>

definition delete_KeyboardInputSystem :: "KeyboardInputSystem \<Rightarrow> world \<Rightarrow> world" where
  "delete_KeyboardInputSystem k w =
     (case source_ref k of None \<Rightarrow> w | Some h \<Rightarrow> CFRelease_source h w)"

definition adjustChunkSize :: "byte list \<Rightarrow> nat \<Rightarrow> nat \<Rightarrow> fault + nat" where
  "adjustChunkSize txt position chunkSize =
     (let endPosition = position + chunkSize in
      if endPosition \<ge> length txt then Inr (size_sub (length txt) position)
      else if endPosition = 0 then Inl OutOfRangeRead
      else
        let lastByte = txt ! (endPosition - 1) in
        if lastByte AND 0xE0 = 0xC0 then Inr (size_sub chunkSize 1)
        else if lastByte AND 0xF0 = 0xE0 then Inr (size_sub chunkSize 1)
        else if lastByte AND 0xF8 = 0xF0 then Inr (size_sub chunkSize 1)
        else Inr chunkSize)"

text \<open>
  The body of the \<open>for\<close> loop of \<open>inputUnicodeText\<close>, over the code units in order. A
  failed key-down creation skips the character with no delay; a failed key-up creation
  skips only the key-up.
\<close>

fun inputUnicodeText_loop ::
  "platform \<Rightarrow> KeyboardInputSystem \<Rightarrow> UniChar list \<Rightarrow> world \<Rightarrow> world" where
  "inputUnicodeText_loop P k [] w = w"
| "inputUnicodeText_loop P k (c # cs) w =
     (case CGEventCreateKeyboardEvent P w of
        (unicodeEvent, w1) \<Rightarrow>
          if unicodeEvent then
            (let w2 = CGEventPost (KeyboardEvent (source_ref k) True c) w1 in
             case CGEventCreateKeyboardEvent P w2 of
               (unicodeEventUp, w3) \<Rightarrow>
                 (let w4 = (if unicodeEventUp
                            then CGEventPost (KeyboardEvent (source_ref k) False c) w3
                            else w3)
                  in inputUnicodeText_loop P k cs (usleep 5000 w4)))
          else inputUnicodeText_loop P k cs w1)"

text \<open>\<open>text.c_str()\<close> hands over the bytes before the first NUL.\<close>

definition c_str :: "byte list \<Rightarrow> byte list" where
  "c_str txt = takeWhile (\<lambda>b. b \<noteq> 0) txt"

definition inputUnicodeText ::
  "platform \<Rightarrow> KeyboardInputSystem \<Rightarrow> byte list \<Rightarrow> world \<Rightarrow> bool \<times> world" where
  "inputUnicodeText P k txt w =
     (case CFStringCreateWithCString P (c_str txt) of
        None \<Rightarrow> (False, emit (Log CFStringFailed) w)
      | Some unicodeChars \<Rightarrow> (True, inputUnicodeText_loop P k unicodeChars w))"

definition inputTextInternal ::
  "platform \<Rightarrow> KeyboardInputSystem \<Rightarrow> byte list \<Rightarrow> world \<Rightarrow> bool \<times> world" where
  "inputTextInternal P k txt w = inputUnicodeText P k txt w"

text \<open>
  The \<open>while\<close> loop of \<open>inputLargeTextOptimized\<close>, from a position and a chunk count.
  It need not return: \<open>None\<close> is the loop that runs forever.
\<close>

partial_function (option) inputLargeTextOptimized_loop ::
  "platform \<Rightarrow> KeyboardInputSystem \<Rightarrow> byte list \<Rightarrow> nat \<Rightarrow> nat \<Rightarrow> nat \<Rightarrow> world
     \<Rightarrow> (fault + bool \<times> world) option" where
  "inputLargeTextOptimized_loop P k txt chunkSize position chunkCount w =
     (if position < length txt then
        (let remaining = length txt - position;
             currentChunkSize = min chunkSize remaining in
         case adjustChunkSize txt position currentChunkSize of
           Inl f \<Rightarrow> Some (Inl f)
         | Inr adjustedChunkSize \<Rightarrow>
             if chunkSize = 0 then Some (Inl DivisionByZero)
             else
               (let chunk = take adjustedChunkSize (drop position txt);
                    w1 = emit (Log (ChunkProgress (chunkCount + 1)
                           ((length txt + chunkSize - 1) div chunkSize)
                           position adjustedChunkSize)) w in
                case inputTextInternal P k chunk w1 of
                  (ok, w2) \<Rightarrow>
                    if \<not> ok then Some (Inr (False, emit (Log ChunkFailed) w2))
                    else
                      inputLargeTextOptimized_loop P k txt chunkSize
                        (position + adjustedChunkSize) (chunkCount + 1)
                        (if position + adjustedChunkSize < length txt
                         then usleep 100000 w2 else w2)))
      else Some (Inr (True, w)))"

definition inputLargeTextOptimized ::
  "platform \<Rightarrow> KeyboardInputSystem \<Rightarrow> byte list \<Rightarrow> nat \<Rightarrow> world
     \<Rightarrow> (fault + bool \<times> world) option" where
  "inputLargeTextOptimized P k txt chunkSize w =
     inputLargeTextOptimized_loop P k txt chunkSize 0 0 w"

definition inputLargeText ::
  "platform \<Rightarrow> KeyboardInputSystem \<Rightarrow> byte list \<Rightarrow> nat \<Rightarrow> world
     \<Rightarrow> (fault + bool \<times> world) option" where
  "inputLargeText P k txt chunkSize w =
     (if \<not> isInitialized k then Some (Inr (False, emit (Log KeyboardNotInitialized) w))
      else if txt = [] then Some (Inr (True, w))
      else if length txt > chunkSize then inputLargeTextOptimized P k txt chunkSize w
      else Some (Inr (inputTextInternal P k txt w)))"

text \<open>
  The chunks of the \<open>while\<close> loop alone: the same positions and the same
  \<open>adjustChunkSize\<close> and \<open>substr\<close> steps as \<open>inputLargeTextOptimized_loop\<close>, with the
  delivery of each chunk left out. The loop delivers exactly these chunks, in this order
  (\<open>inputLargeTextOptimized_loop_chunks\<close> below).
\<close>

partial_function (option) chunkingLoop ::
  "byte list \<Rightarrow> nat \<Rightarrow> nat \<Rightarrow> (fault + byte list list) option" where
  "chunkingLoop txt chunkSize position =
     (if position < length txt then
        (case adjustChunkSize txt position (min chunkSize (length txt - position)) of
           Inl f \<Rightarrow> Some (Inl f)
         | Inr adjustedChunkSize \<Rightarrow>
             if chunkSize = 0 then Some (Inl DivisionByZero)
             else
               Option.bind (chunkingLoop txt chunkSize (position + adjustedChunkSize))
                 (\<lambda>r. Some (case r of
                     Inl f \<Rightarrow> Inl f
                   | Inr chunks \<Rightarrow>
                       Inr (take adjustedChunkSize (drop position txt) # chunks))))
      else Some (Inr []))"

section \<open>The singleton and the binding\<close>

definition getKeyboardSystem :: "platform \<Rightarrow> world \<Rightarrow> KeyboardInputSystem \<times> world" where
  "getKeyboardSystem P w =
     (case gKeyboardSystem w of
        None \<Rightarrow>
          (case new_KeyboardInputSystem P w of
             (k, w1) \<Rightarrow>
               (k, emit (Log KeyboardSystemInitialized) (w1\<lparr>gKeyboardSystem := Some k\<rparr>)))
      | Some k \<Rightarrow> (k, w))"

definition cleanupKeyboardSystem :: "world \<Rightarrow> world" where
  "cleanupKeyboardSystem w =
     (case gKeyboardSystem w of
        None \<Rightarrow> w
      | Some k \<Rightarrow> (delete_KeyboardInputSystem k w)\<lparr>gKeyboardSystem := None\<rparr>)"

text \<open>\<open>simulateKeyboardInput\<close> calls \<open>inputLargeText\<close> with the default chunk size 1000.\<close>

definition simulateKeyboardInput ::
  "platform \<Rightarrow> byte list \<Rightarrow> world \<Rightarrow> (fault + bool \<times> world) option" where
  "simulateKeyboardInput P txt w =
     (case getKeyboardSystem P (emit (Log (SimulateStart (length txt))) w) of
        (keyboard, w1) \<Rightarrow>
          if \<not> isInitialized keyboard
          then Some (Inr (False, emit (Log SimulateInitFailed) w1))
          else
            Option.bind (inputLargeText P keyboard txt 1000 w1)
              (\<lambda>r. Some (case r of
                  Inl f \<Rightarrow> Inl f
                | Inr (success, w2) \<Rightarrow>
                    Inr (success,
                      emit (Log (if success then SimulateSucceeded else SimulateFailed)) w2))))"

text \<open>
  JavaScript values as the binding sees them; a string is its UTF-8 bytes, an object its
  properties in order. \<open>Utf8Value\<close> of a value that is not a string throws (node-addon-api
  with C++ exceptions); the call then ends with no result object.
\<close>

datatype napi_value =
    JSUndefined
  | JSNull
  | JSBoolean bool
  | JSString "byte list"
  | JSObject "(string \<times> napi_value) list"

record InsertTextResult =
  result_success :: bool
  result_method :: "byte list"
  result_error :: "byte list option"

definition ascii :: "string \<Rightarrow> byte list" where
  "ascii s = map (\<lambda>c. of_nat (of_char c)) s"

text \<open>The UTF-8 bytes of the error message of \<open>InsertText\<close>, a string of eight CJK characters.\<close>

definition keyboard_failed_message :: "byte list" where
  "keyboard_failed_message =
     [0xE9, 0x94, 0xAE, 0xE7, 0x9B, 0x98, 0xE6, 0xA8, 0xA1, 0xE6, 0x8B, 0x9F,
      0xE8, 0xBE, 0x93, 0xE5, 0x85, 0xA5, 0xE5, 0xA4, 0xB1, 0xE8, 0xB4, 0xA5]"

definition IsObject :: "napi_value \<Rightarrow> bool" where
  "IsObject v = (case v of JSObject _ \<Rightarrow> True | _ \<Rightarrow> False)"

definition Get :: "napi_value \<Rightarrow> string \<Rightarrow> napi_value" where
  "Get v key =
     (case v of
        JSObject props \<Rightarrow> (case map_of props key of None \<Rightarrow> JSUndefined | Some x \<Rightarrow> x)
      | _ \<Rightarrow> JSUndefined)"

definition Utf8Value :: "napi_value \<Rightarrow> fault + byte list" where
  "Utf8Value v = (case v of JSString s \<Rightarrow> Inr s | _ \<Rightarrow> Inl StringExpected)"

definition InsertText ::
  "platform \<Rightarrow> napi_value list \<Rightarrow> world \<Rightarrow> (fault + InsertTextResult \<times> world) option" where
  "InsertText P info w =
     (if length info < 1 \<or> \<not> IsObject (info ! 0) then Some (Inl TypeError)
      else
        (let args = info ! 0 in
         case Utf8Value (Get args ''text'') of
           Inl f \<Rightarrow> Some (Inl f)
         | Inr txt \<Rightarrow>
             (case (if Get args ''targetApp'' = JSUndefined then Inr []
                    else Utf8Value (Get args ''targetApp'')) of
                Inl f \<Rightarrow> Some (Inl f)
              | Inr targetApp \<Rightarrow>
                  Option.bind
                    (simulateKeyboardInput P txt (emit (Log (InsertTextStart (length txt))) w))
                    (\<lambda>r. Some (case r of
                        Inl f \<Rightarrow> Inl f
                      | Inr (success, w') \<Rightarrow>
                          Inr (\<lparr>result_success = success,
                                result_method = (if success then ascii ''keyboard'' else []),
                                result_error =
                                  (if success then None else Some keyboard_failed_message)\<rparr>,
                               w'))))))"

section \<open>Reference encodings\<close>

text \<open>
  The characters of a text are the Unicode scalar values of its UTF-8 bytes (RFC 3629:
  shortest form only, no surrogates, at most U+10FFFF), and the code units of a scalar
  value are its UTF-16 form. A decoder that refuses malformed bytes, as the NULL result
  of \<open>CFStringCreateWithCString\<close> does, is \<open>utf8_to_utf16\<close>.
\<close>

definition is_continuation :: "byte \<Rightarrow> bool" where
  "is_continuation b = (b AND 0xC0 = 0x80)"

fun utf8_decode :: "byte list \<Rightarrow> nat list option" where
  "utf8_decode [] = Some []"
| "utf8_decode (b0 # bs) =
     (if b0 < 0x80 then map_option ((#) (unat b0)) (utf8_decode bs)
      else if b0 AND 0xE0 = 0xC0 then
        (case bs of
           b1 # rest \<Rightarrow>
             (let cp = unat (b0 AND 0x1F) * 64 + unat (b1 AND 0x3F) in
              if is_continuation b1 \<and> 0x80 \<le> cp
              then map_option ((#) cp) (utf8_decode rest) else None)
         | _ \<Rightarrow> None)
      else if b0 AND 0xF0 = 0xE0 then
        (case bs of
           b1 # b2 # rest \<Rightarrow>
             (let cp = unat (b0 AND 0x0F) * 4096 + unat (b1 AND 0x3F) * 64
                         + unat (b2 AND 0x3F) in
              if is_continuation b1 \<and> is_continuation b2 \<and> 0x800 \<le> cp
                 \<and> (cp < 0xD800 \<or> 0xDFFF < cp)
              then map_option ((#) cp) (utf8_decode rest) else None)
         | _ \<Rightarrow> None)
      else if b0 AND 0xF8 = 0xF0 then
        (case bs of
           b1 # b2 # b3 # rest \<Rightarrow>
             (let cp = unat (b0 AND 0x07) * 262144 + unat (b1 AND 0x3F) * 4096
                         + unat (b2 AND 0x3F) * 64 + unat (b3 AND 0x3F) in
              if is_continuation b1 \<and> is_continuation b2 \<and> is_continuation b3
                 \<and> 0x10000 \<le> cp \<and> cp \<le> 0x10FFFF
              then map_option ((#) cp) (utf8_decode rest) else None)
         | _ \<Rightarrow> None)
      else None)"

definition utf16_encode :: "nat \<Rightarrow> UniChar list" where
  "utf16_encode cp =
     (if cp < 0x10000 then [of_nat cp]
      else [of_nat (0xD800 + (cp - 0x10000) div 0x400),
            of_nat (0xDC00 + (cp - 0x10000) mod 0x400)])"

definition utf16_units :: "nat list \<Rightarrow> UniChar list" where
  "utf16_units cps = concat (map utf16_encode cps)"

definition utf8_to_utf16 :: "byte list \<Rightarrow> UniChar list option" where
  "utf8_to_utf16 bs = map_option utf16_units (utf8_decode bs)"

text \<open>One key-down and one key-up event per code unit, in order.\<close>

definition keystrokes :: "CGEventSourceRef \<Rightarrow> UniChar list \<Rightarrow> CGEvent list" where
  "keystrokes src us = concat (map (\<lambda>u. [KeyboardEvent src True u, KeyboardEvent src False u]) us)"

text \<open>
  A platform on which every creation call succeeds and strings decode as strict UTF-8,
  a process that has done nothing yet, and an injector holding the event source 0.
\<close>

definition strict_platform :: platform where
  "strict_platform =
     \<lparr>CFStringCreateWithCString = utf8_to_utf16,
      event_created = (\<lambda>n. True),
      source_created = (\<lambda>n. True)\<rparr>"

definition fresh_world :: world where
  "fresh_world =
     \<lparr>trace = [], event_calls = 0, source_calls = 0, live_sources = [],
      gKeyboardSystem = None\<rparr>"

definition ready_keyboard :: KeyboardInputSystem where
  "ready_keyboard = \<lparr>source_ref = Some 0, isInitialized = True\<rparr>"

text \<open>
  Two more platforms: one that refuses every event source, and one on which the first
  and the third call of \<open>CGEventCreateKeyboardEvent\<close> return NULL.
\<close>

definition refusing_platform :: platform where
  "refusing_platform = strict_platform\<lparr>source_created := (\<lambda>n. False)\<rparr>"

definition flaky_platform :: platform where
  "flaky_platform = strict_platform\<lparr>event_created := (\<lambda>n. n \<noteq> 0 \<and> n \<noteq> 2)\<rparr>"

section \<open>The loops as functions of their inputs\<close>

text \<open>
  The effects of the \<open>for\<close> loop of \<open>inputUnicodeText\<close> and the number of creation
  calls after it, from the number of calls before it.
\<close>

fun key_effects :: "platform \<Rightarrow> KeyboardInputSystem \<Rightarrow> UniChar list \<Rightarrow> nat \<Rightarrow> effect list" where
  "key_effects P k [] n = []"
| "key_effects P k (c # cs) n =
     (if event_created P n then
        Post (KeyboardEvent (source_ref k) True c)
          # (if event_created P (n + 1) then [Post (KeyboardEvent (source_ref k) False c)] else [])
          @ Sleep 5000 # key_effects P k cs (n + 2)
      else key_effects P k cs (n + 1))"

fun key_calls :: "platform \<Rightarrow> UniChar list \<Rightarrow> nat \<Rightarrow> nat" where
  "key_calls P [] n = n"
| "key_calls P (c # cs) n =
     (if event_created P n then key_calls P cs (n + 2) else key_calls P cs (n + 1))"

text \<open>The \<open>while\<close> loop of \<open>inputLargeTextOptimized\<close> over a given list of chunks.\<close>

fun deliver_chunks ::
  "platform \<Rightarrow> KeyboardInputSystem \<Rightarrow> nat \<Rightarrow> nat \<Rightarrow> nat \<Rightarrow> byte list list \<Rightarrow> world
     \<Rightarrow> bool \<times> world" where
  "deliver_chunks P k totalChunks position chunkCount [] w = (True, w)"
| "deliver_chunks P k totalChunks position chunkCount (chunk # chunks) w =
     (case inputTextInternal P k chunk
             (emit (Log (ChunkProgress (chunkCount + 1) totalChunks position (length chunk))) w) of
        (ok, w2) \<Rightarrow>
          if \<not> ok then (False, emit (Log ChunkFailed) w2)
          else deliver_chunks P k totalChunks (position + length chunk) (chunkCount + 1) chunks
                 (if chunks \<noteq> [] then usleep 100000 w2 else w2))"

section \<open>Chunk sizes and the chunk sequence\<close>

lemma size_sub_le [simp]: "b \<le> a \<Longrightarrow> size_sub a b = a - b"
  by (simp add: size_sub_def)

lemma adjustChunkSize_before_end:
  assumes "0 < chunkSize" "position + chunkSize < length txt"
  shows "adjustChunkSize txt position chunkSize =
     Inr (if txt ! (position + chunkSize - 1) AND 0xE0 = 0xC0
           \<or> txt ! (position + chunkSize - 1) AND 0xF0 = 0xE0
           \<or> txt ! (position + chunkSize - 1) AND 0xF8 = 0xF0
          then chunkSize - 1 else chunkSize)"
  using assms by (simp add: adjustChunkSize_def Let_def Suc_leI)

lemma adjustChunkSize_at_end:
  assumes "position \<le> length txt" "length txt \<le> position + chunkSize"
  shows "adjustChunkSize txt position chunkSize = Inr (length txt - position)"
  using assms by (simp add: adjustChunkSize_def Let_def)

lemma adjustChunkSize_bounds:
  assumes "position < length txt" "0 < cs" "cs \<le> length txt - position"
  shows "\<exists>a. adjustChunkSize txt position cs = Inr a \<and> cs - 1 \<le> a \<and> a \<le> cs
           \<and> (position + cs = length txt \<longrightarrow> a = cs)"
proof (cases "position + cs < length txt")
  case True
  with assms show ?thesis by (simp add: adjustChunkSize_before_end)
next
  case False
  with assms have e: "position + cs = length txt" by simp
  then have "adjustChunkSize txt position cs = Inr (length txt - position)"
    using assms by (intro adjustChunkSize_at_end) simp_all
  moreover have "length txt - position = cs" using e by simp
  ultimately show ?thesis by simp
qed

lemma adjustChunkSize_le:
  assumes "position < length txt" "chunkSize \<noteq> 0"
    "adjustChunkSize txt position (min chunkSize (length txt - position)) = Inr a"
  shows "position + a \<le> length txt"
proof -
  have "0 < min chunkSize (length txt - position)"
    "min chunkSize (length txt - position) \<le> length txt - position"
    using assms by simp_all
  from adjustChunkSize_bounds [OF assms(1) this] assms(1,3) show ?thesis by auto
qed

lemma chunkingLoop_Nil:
  "chunkingLoop txt chunkSize position = Some (Inr []) \<longleftrightarrow> length txt \<le> position"
  by (subst chunkingLoop.simps)
     (auto simp: bind_eq_Some_conv split: sum.splits)

lemma chunkingLoop_Cons:
  assumes "chunkingLoop txt chunkSize position = Some (Inr (c # chunks))"
  shows "\<exists>a. position < length txt \<and> chunkSize \<noteq> 0
           \<and> adjustChunkSize txt position (min chunkSize (length txt - position)) = Inr a
           \<and> c = take a (drop position txt)
           \<and> chunkingLoop txt chunkSize (position + a) = Some (Inr chunks)"
proof -
  from assms have p: "position < length txt"
    by (subst (asm) chunkingLoop.simps) (simp split: if_splits)
  from assms p obtain a where a:
    "adjustChunkSize txt position (min chunkSize (length txt - position)) = Inr a"
    by (subst (asm) chunkingLoop.simps) (simp split: sum.splits)
  from assms p a have z: "chunkSize \<noteq> 0"
    by (subst (asm) chunkingLoop.simps) (simp split: if_splits)
  from assms p a z obtain r where r: "chunkingLoop txt chunkSize (position + a) = Some r"
    "(case r of Inl f \<Rightarrow> Inl f | Inr cks \<Rightarrow> Inr (take a (drop position txt) # cks))
       = Inr (c # chunks)"
    by (subst (asm) chunkingLoop.simps) (auto simp: bind_eq_Some_conv)
  from r(2) have "r = Inr chunks \<and> c = take a (drop position txt)"
    by (cases r) auto
  with p a z r(1) show ?thesis by blast
qed

lemma chunkingLoop_total:
  assumes "2 \<le> chunkSize"
  shows "\<exists>chunks. chunkingLoop txt chunkSize position = Some (Inr chunks)
           \<and> concat chunks = drop position txt
           \<and> (\<forall>c \<in> set chunks. c \<noteq> [] \<and> length c \<le> chunkSize)"
proof (induction "length txt - position" arbitrary: position rule: less_induct)
  case less
  show ?case
  proof (cases "position < length txt")
    case False
    then show ?thesis by (subst chunkingLoop.simps) simp
  next
    case True
    define cs where "cs = min chunkSize (length txt - position)"
    have cs: "0 < cs" "cs \<le> length txt - position" "cs \<le> chunkSize"
      using True assms by (simp_all add: cs_def)
    from adjustChunkSize_bounds [OF True cs(1,2)]
    obtain a where a: "adjustChunkSize txt position cs = Inr a" "cs - 1 \<le> a" "a \<le> cs"
      "position + cs = length txt \<longrightarrow> a = cs" by blast
    have apos: "0 < a"
    proof (cases "position + cs = length txt")
      case True
      with a cs show ?thesis by simp
    next
      case False
      with cs have "cs = chunkSize" by (simp add: cs_def min_def split: if_splits)
      with a assms show ?thesis by simp
    qed
    have "length txt - (position + a) < length txt - position"
      using True apos by simp
    from less [OF this]
    obtain rest where rest: "chunkingLoop txt chunkSize (position + a) = Some (Inr rest)"
      "concat rest = drop (position + a) txt"
      "\<forall>c \<in> set rest. c \<noteq> [] \<and> length c \<le> chunkSize" by blast
    have step: "chunkingLoop txt chunkSize position
        = Some (Inr (take a (drop position txt) # rest))"
      using True a(1) rest(1) assms
      by (subst chunkingLoop.simps) (simp add: cs_def)
    have "take a (drop position txt) @ drop (position + a) txt = drop position txt"
      by (metis add.commute append_take_drop_id drop_drop)
    moreover have "take a (drop position txt) \<noteq> []"
      using True apos by simp
    moreover have "length (take a (drop position txt)) \<le> chunkSize"
      using a cs by simp
    ultimately show ?thesis using step rest by simp
  qed
qed

lemma chunkingLoop_stuck:
  assumes "position < length t" "chunkSize \<noteq> 0"
    "adjustChunkSize t position (min chunkSize (length t - position)) = Inr 0"
  shows "chunkingLoop t chunkSize position = None"
proof (cases "chunkingLoop t chunkSize position")
  case (Some r)
  have "\<not> (position < length t \<and> chunkSize \<noteq> 0
      \<and> adjustChunkSize t position (min chunkSize (length t - position)) = Inr 0)"
  proof (rule chunkingLoop.raw_induct
      [where P = "\<lambda>t s p r. \<not> (p < length t \<and> s \<noteq> 0
          \<and> adjustChunkSize t p (min s (length t - p)) = Inr 0)", OF _ Some])
    fix f :: "byte list \<Rightarrow> nat \<Rightarrow> nat \<Rightarrow> (fault + byte list list) option"
      and t' s p r'
    assume IH: "\<And>t s p r. f t s p = Some r \<Longrightarrow>
        \<not> (p < length t \<and> s \<noteq> 0 \<and> adjustChunkSize t p (min s (length t - p)) = Inr 0)"
    assume step: "(if p < length t'
      then case adjustChunkSize t' p (min s (length t' - p)) of
           Inl f \<Rightarrow> Some (Inl f)
           | Inr adjustedChunkSize \<Rightarrow>
               if s = 0 then Some (Inl DivisionByZero)
               else Option.bind (f t' s (p + adjustedChunkSize))
                     (\<lambda>r. Some (case r of Inl f \<Rightarrow> Inl f
                            | Inr chunks \<Rightarrow>
                                Inr (take adjustedChunkSize (drop p t') # chunks)))
      else Some (Inr [])) = Some r'"
    show "\<not> (p < length t' \<and> s \<noteq> 0
        \<and> adjustChunkSize t' p (min s (length t' - p)) = Inr 0)"
    proof
      assume a: "p < length t' \<and> s \<noteq> 0
        \<and> adjustChunkSize t' p (min s (length t' - p)) = Inr 0"
      with step obtain r'' where "f t' s p = Some r''"
        by (auto simp: bind_eq_Some_conv)
      from IH [OF this] a show False by simp
    qed
  qed
  with assms show ?thesis by simp
qed simp

section \<open>Effects of delivering one chunk\<close>

lemma posted_of_append [simp]: "posted_of (xs @ ys) = posted_of xs @ posted_of ys"
  by (induction xs rule: posted_of.induct) simp_all

lemma messages_of_append [simp]: "messages_of (xs @ ys) = messages_of xs @ messages_of ys"
  by (induction xs rule: messages_of.induct) simp_all

lemma posted_emit_Log [simp]: "posted (emit (Log m) w) = posted w"
  by (simp add: posted_def emit_def)

lemma posted_usleep [simp]: "posted (usleep n w) = posted w"
  by (simp add: posted_def usleep_def emit_def)

lemma event_calls_emit [simp]: "event_calls (emit e w) = event_calls w"
  by (simp add: emit_def)

lemma event_calls_usleep [simp]: "event_calls (usleep n w) = event_calls w"
  by (simp add: usleep_def)

lemma inputUnicodeText_loop_eq:
  "inputUnicodeText_loop P k cs w =
     w\<lparr>trace := trace w @ key_effects P k cs (event_calls w),
       event_calls := key_calls P cs (event_calls w)\<rparr>"
proof (induction cs arbitrary: w)
  case Nil
  show ?case by simp
next
  case (Cons c cs)
  show ?case
    by (simp add: Cons.IH CGEventCreateKeyboardEvent_def CGEventPost_def usleep_def emit_def)
qed

lemma key_effects_all_created:
  assumes "\<forall>n. event_created P n"
  shows "posted_of (key_effects P k us n) = keystrokes (source_ref k) us"
  using assms by (induction us arbitrary: n) (simp_all add: keystrokes_def)

lemma inputUnicodeText_posted:
  "posted (snd (inputUnicodeText P k t w)) =
     posted w @ (case CFStringCreateWithCString P (c_str t) of None \<Rightarrow> []
                 | Some us \<Rightarrow> posted_of (key_effects P k us (event_calls w)))"
  by (simp add: inputUnicodeText_def inputUnicodeText_loop_eq posted_def emit_def
      split: option.splits)

lemma inputUnicodeText_event_calls:
  "event_calls (snd (inputUnicodeText P k t w)) =
     (case CFStringCreateWithCString P (c_str t) of None \<Rightarrow> event_calls w
      | Some us \<Rightarrow> key_calls P us (event_calls w))"
  by (simp add: inputUnicodeText_def inputUnicodeText_loop_eq emit_def
      split: option.splits)

lemma inputUnicodeText_ok:
  "fst (inputUnicodeText P k t w) \<longleftrightarrow> CFStringCreateWithCString P (c_str t) \<noteq> None"
  by (simp add: inputUnicodeText_def split: option.splits)

lemma inputTextInternal_same_events:
  assumes "posted w = posted v" "event_calls w = event_calls v"
  shows "fst (inputTextInternal P k c w) = fst (inputTextInternal P k c v)
     \<and> posted (snd (inputTextInternal P k c w)) = posted (snd (inputTextInternal P k c v))
     \<and> event_calls (snd (inputTextInternal P k c w))
         = event_calls (snd (inputTextInternal P k c v))"
  using assms
  by (simp add: inputTextInternal_def inputUnicodeText_posted inputUnicodeText_event_calls
      inputUnicodeText_ok split: option.splits)

lemma c_str_no_NUL: "0 \<notin> set t \<Longrightarrow> c_str t = t"
  by (simp add: c_str_def takeWhile_eq_all_conv) metis

section \<open>The while loop over its chunks\<close>

lemma inputLargeTextOptimized_loop_chunks:
  assumes "chunkingLoop txt chunkSize position = Some (Inr chunks)"
  shows "inputLargeTextOptimized_loop P k txt chunkSize position chunkCount w =
     Some (Inr (deliver_chunks P k ((length txt + chunkSize - 1) div chunkSize)
                  position chunkCount chunks w))"
  using assms
proof (induction chunks arbitrary: position chunkCount w)
  case Nil
  then have "length txt \<le> position" by (simp add: chunkingLoop_Nil)
  then show ?case by (subst inputLargeTextOptimized_loop.simps) simp
next
  case (Cons c chunks)
  from chunkingLoop_Cons [OF Cons.prems]
  obtain a where a: "position < length txt" "chunkSize \<noteq> 0"
    "adjustChunkSize txt position (min chunkSize (length txt - position)) = Inr a"
    "c = take a (drop position txt)"
    "chunkingLoop txt chunkSize (position + a) = Some (Inr chunks)" by blast
  have le: "position + a \<le> length txt" by (rule adjustChunkSize_le [OF a(1,2,3)])
  then have len: "length c = a" using a(4) by simp
  have nonlast: "position + a < length txt \<longleftrightarrow> chunks \<noteq> []"
    using a(5) chunkingLoop_Nil [of "txt" chunkSize "position + a"] by auto
  show ?case
    apply (subst inputLargeTextOptimized_loop.simps)
    apply (simp add: a(1,2,3) Let_def len nonlast split: prod.splits)
    apply (simp add: Cons.IH [OF a(5)] a(4) [symmetric])
    done
qed

text \<open>
  A chunk of length 0 before the end of the text is delivered again and again: the
  position never moves.
\<close>

lemma loop_stuck:
  assumes "position < length t" "chunkSize \<noteq> 0"
    "adjustChunkSize t position (min chunkSize (length t - position)) = Inr 0"
    "CFStringCreateWithCString P [] \<noteq> None"
  shows "inputLargeTextOptimized_loop P k t chunkSize position chunkCount w = None"
proof (cases "inputLargeTextOptimized_loop P k t chunkSize position chunkCount w")
  case (Some r)
  have "case ((((((P, k), t), chunkSize), position), chunkCount), w) of
          ((((((P, k), t), s), p), c), w) \<Rightarrow>
            \<not> (p < length t \<and> s \<noteq> 0
               \<and> adjustChunkSize t p (min s (length t - p)) = Inr 0
               \<and> CFStringCreateWithCString P [] \<noteq> None)"
  proof (rule inputLargeTextOptimized_loop.raw_induct
      [where Pa = "\<lambda>x r. case x of ((((((P, k), t), s), p), c), w) \<Rightarrow>
         \<not> (p < length t \<and> s \<noteq> 0
            \<and> adjustChunkSize t p (min s (length t - p)) = Inr 0
            \<and> CFStringCreateWithCString P [] \<noteq> None)", OF _ Some])
    fix f :: "platform \<Rightarrow> KeyboardInputSystem \<Rightarrow> byte list \<Rightarrow> nat \<Rightarrow> nat \<Rightarrow> nat \<Rightarrow> world
        \<Rightarrow> (fault + bool \<times> world) option"
      and P' k' t' s p c w' r'
    assume IH: "\<And>P k t s p c w r. f P k t s p c w = Some r \<Longrightarrow>
        (case ((((((P, k), t), s), p), c), w) of
          ((((((P, k), t), s), p), c), w) \<Rightarrow>
            \<not> (p < length t \<and> s \<noteq> 0
               \<and> adjustChunkSize t p (min s (length t - p)) = Inr 0
               \<and> CFStringCreateWithCString P [] \<noteq> None))"
    assume step: "(if p < length t'
      then let remaining = length t' - p; currentChunkSize = min s remaining
           in case adjustChunkSize t' p currentChunkSize of
              Inl f \<Rightarrow> Some (Inl f)
              | Inr adjustedChunkSize \<Rightarrow>
                  if s = 0 then Some (Inl DivisionByZero)
                  else let chunk = take adjustedChunkSize (drop p t');
                           w1 = emit (Log (ChunkProgress (c + 1)
                                  ((length t' + s - 1) div s) p adjustedChunkSize)) w'
                       in case inputTextInternal P' k' chunk w1 of
                          (ok, w2) \<Rightarrow>
                            if \<not> ok then Some (Inr (False, emit (Log ChunkFailed) w2))
                            else f P' k' t' s (p + adjustedChunkSize) (c + 1)
                                  (if p + adjustedChunkSize < length t'
                                   then usleep 100000 w2 else w2)
      else Some (Inr (True, w'))) = Some r'"
    show "case ((((((P', k'), t'), s), p), c), w') of
          ((((((P, k), t), s), p), c), w) \<Rightarrow>
            \<not> (p < length t \<and> s \<noteq> 0
               \<and> adjustChunkSize t p (min s (length t - p)) = Inr 0
               \<and> CFStringCreateWithCString P [] \<noteq> None)"
    proof (simp only: prod.case, rule notI)
      assume a: "p < length t' \<and> s \<noteq> 0
            \<and> adjustChunkSize t' p (min s (length t' - p)) = Inr 0
            \<and> CFStringCreateWithCString P' [] \<noteq> None"
      then have ok: "\<And>v. fst (inputTextInternal P' k' [] v)"
        by (auto simp: inputTextInternal_def inputUnicodeText_def c_str_def)
      from step a obtain c' w'' where "f P' k' t' s p c' w'' = Some r'"
        using ok by (auto simp: Let_def split: prod.splits if_splits) (metis fst_conv)
      from IH [OF this] a show False by simp
    qed
  qed
  with assms show ?thesis by simp
qed simp

lemma inputLargeText_total:
  assumes "2 \<le> chunkSize"
  shows "\<exists>ok w'. inputLargeText P k t chunkSize w = Some (Inr (ok, w'))"
proof -
  from chunkingLoop_total [OF assms, of t 0]
  obtain chunks where "chunkingLoop t chunkSize 0 = Some (Inr chunks)" by blast
  from inputLargeTextOptimized_loop_chunks [OF this, of P k 0 w]
  have "\<exists>ok w'. inputLargeTextOptimized P k t chunkSize w = Some (Inr (ok, w'))"
    by (simp add: inputLargeTextOptimized_def)
  then show ?thesis
    by (auto simp: inputLargeText_def intro: surj_pair)
qed

lemma simulateKeyboardInput_total:
  "\<exists>ok w'. simulateKeyboardInput P t w = Some (Inr (ok, w'))"
proof -
  obtain keyboard w1 where g:
    "getKeyboardSystem P (emit (Log (SimulateStart (length t))) w) = (keyboard, w1)"
    by (metis surj_pair)
  have "2 \<le> (1000::nat)" by simp
  from inputLargeText_total [OF this, of P keyboard t w1]
  obtain ok w2 where "inputLargeText P keyboard t 1000 w1 = Some (Inr (ok, w2))" by blast
  with g show ?thesis by (auto simp: simulateKeyboardInput_def)
qed

lemma fold_deliver_extends:
  "\<exists>es. posted (fold (\<lambda>c v. snd (inputTextInternal P k c v)) chunks w) = posted w @ es"
proof (induction chunks arbitrary: w)
  case Nil
  show ?case by simp
next
  case (Cons c chunks)
  from Cons.IH [of "snd (inputTextInternal P k c w)"]
  show ?case by (auto simp: inputTextInternal_def inputUnicodeText_posted)
qed

lemma deliver_chunks_failure:
  assumes "\<forall>c \<in> set pre. CFStringCreateWithCString P (c_str c) \<noteq> None"
    "CFStringCreateWithCString P (c_str bad) = None"
    "posted w = posted v" "event_calls w = event_calls v"
  shows "\<not> fst (deliver_chunks P k n position chunkCount (pre @ bad # rest) w)
     \<and> posted (snd (deliver_chunks P k n position chunkCount (pre @ bad # rest) w))
         = posted (fold (\<lambda>c v. snd (inputTextInternal P k c v)) pre v)"
  using assms
proof (induction pre arbitrary: position chunkCount w v)
  case Nil
  then show ?case
    by (simp add: inputTextInternal_def inputUnicodeText_def split: prod.splits)
next
  case (Cons c pre)
  define w1 where "w1 = emit (Log (ChunkProgress (chunkCount + 1) n position (length c))) w"
  have s: "posted w1 = posted v" "event_calls w1 = event_calls v"
    using Cons.prems by (simp_all add: w1_def)
  obtain ok w2 where r: "inputTextInternal P k c w1 = (ok, w2)" by (metis surj_pair)
  have ok: "ok" using r Cons.prems(1)
    by (metis fst_conv inputTextInternal_def inputUnicodeText_ok list.set_intros(1))
  define w3 where "w3 = (if pre @ bad # rest \<noteq> [] then usleep 100000 w2 else w2)"
  from inputTextInternal_same_events [OF s, of P k c] r
  have "posted w3 = posted (snd (inputTextInternal P k c v))"
    "event_calls w3 = event_calls (snd (inputTextInternal P k c v))"
    by (simp_all add: w3_def)
  from Cons.IH [OF _ Cons.prems(2) this, of "position + length c" "chunkCount + 1"]
    Cons.prems(1)
  show ?case
    using r ok by (simp add: w1_def w3_def)
qed

section \<open>Decoding and chunks\<close>

text \<open>Decoding distributes over a split that leaves the first part well-formed.\<close>

lemma utf8_decode_append:
  "utf8_decode a = Some x \<Longrightarrow>
     utf8_decode (a @ b) = (case utf8_decode b of None \<Rightarrow> None | Some y \<Rightarrow> Some (x @ y))"
proof (induction a arbitrary: x rule: utf8_decode.induct)
  case 1
  then show ?case by (simp split: option.splits)
next
  case (2 b0 bs)
  show ?case
    using "2.prems" "2.IH"
    by (auto simp: Let_def split: if_splits list.splits option.splits)
qed

lemma utf8_decode_ascii:
  "\<forall>b \<in> set pre. b < 0x80 \<Longrightarrow>
     utf8_decode (pre @ r)
       = (case utf8_decode r of None \<Rightarrow> None | Some y \<Rightarrow> Some (map unat pre @ y))"
  by (induction pre) (auto split: option.splits)

lemma keystrokes_append:
  "keystrokes src (a @ b) = keystrokes src a @ keystrokes src b"
  by (simp add: keystrokes_def)

lemma utf16_units_append: "utf16_units (a @ b) = utf16_units a @ utf16_units b"
  by (simp add: utf16_units_def)

lemma inputTextInternal_decoded:
  assumes "CFStringCreateWithCString P = utf8_to_utf16" "\<forall>n. event_created P n"
    "utf8_decode c = Some x" "0 \<notin> set c"
  shows "fst (inputTextInternal P k c w)"
    and "posted (snd (inputTextInternal P k c w))
           = posted w @ keystrokes (source_ref k) (utf16_units x)"
  using assms
  by (simp_all add: inputTextInternal_def inputUnicodeText_ok inputUnicodeText_posted
      c_str_no_NUL utf8_to_utf16_def key_effects_all_created)

lemma deliver_chunks_all_decode:
  assumes "CFStringCreateWithCString P = utf8_to_utf16" "\<forall>n. event_created P n"
    "\<forall>c \<in> set chunks. utf8_decode c \<noteq> None \<and> 0 \<notin> set c"
  shows "\<exists>cps. utf8_decode (concat chunks) = Some cps
     \<and> fst (deliver_chunks P k n position chunkCount chunks w)
     \<and> posted (snd (deliver_chunks P k n position chunkCount chunks w))
         = posted w @ keystrokes (source_ref k) (utf16_units cps)"
  using assms(3)
proof (induction chunks arbitrary: position chunkCount w)
  case Nil
  show ?case by (simp add: keystrokes_def utf16_units_def)
next
  case (Cons c chunks)
  from Cons.prems obtain x where x: "utf8_decode c = Some x" "0 \<notin> set c" by auto
  define w1 where "w1 = emit (Log (ChunkProgress (chunkCount + 1) n position (length c))) w"
  obtain ok w2 where r: "inputTextInternal P k c w1 = (ok, w2)" by (metis surj_pair)
  from inputTextInternal_decoded [OF assms(1,2) x, of k w1] r
  have ok: "ok" and p2: "posted w2 = posted w @ keystrokes (source_ref k) (utf16_units x)"
    by (simp_all add: w1_def)
  define w3 where "w3 = (if chunks \<noteq> [] then usleep 100000 w2 else w2)"
  have p3: "posted w3 = posted w2" by (simp add: w3_def)
  from Cons.IH [of "position + length c" "chunkCount + 1" w3] Cons.prems
  obtain cps where cps: "utf8_decode (concat chunks) = Some cps"
    "fst (deliver_chunks P k n (position + length c) (chunkCount + 1) chunks w3)"
    "posted (snd (deliver_chunks P k n (position + length c) (chunkCount + 1) chunks w3))
       = posted w3 @ keystrokes (source_ref k) (utf16_units cps)"
    by auto
  have d: "utf8_decode (concat (c # chunks)) = Some (x @ cps)"
    using utf8_decode_append [OF x(1), of "concat chunks"] cps(1) by simp
  have e: "deliver_chunks P k n position chunkCount (c # chunks) w
      = deliver_chunks P k n (position + length c) (chunkCount + 1) chunks w3"
    using r ok by (simp add: w1_def w3_def)
  show ?case
    using d e cps(2,3) p2 p3 by (simp add: keystrokes_append utf16_units_append)
qed

text \<open>
  Where no boundary splits a character, the characters arrive. For a chunk size of at
  least 2, an initialized injector, a platform that decodes strict UTF-8 and creates
  every key event, and a well-formed text without NUL bytes: when every chunk of the loop
  decodes on its own, the insertion succeeds and the events posted are one key-down and
  one key-up per UTF-16 code unit of the text's characters, in order.
\<close>

theorem chunked_delivery_preserves_characters:
  assumes "2 \<le> chunkSize" "isInitialized k" "0 \<notin> set txt"
    "CFStringCreateWithCString P = utf8_to_utf16" "\<forall>n. event_created P n"
    "utf8_decode txt = Some cps"
    "\<forall>chunks. chunkingLoop txt chunkSize 0 = Some (Inr chunks) \<longrightarrow>
       (\<forall>c \<in> set chunks. utf8_decode c \<noteq> None)"
  shows "\<exists>w'. inputLargeText P k txt chunkSize w = Some (Inr (True, w'))
     \<and> posted w' = posted w @ keystrokes (source_ref k) (utf16_units cps)"
proof (cases "chunkSize < length txt")
  case False
  show ?thesis
  proof (cases "txt = []")
    case True
    with assms(2,6) show ?thesis
      by (simp add: inputLargeText_def keystrokes_def utf16_units_def)
  next
    case nonempty: False
    from inputTextInternal_decoded [OF assms(4,5,6,3), of k w]
    show ?thesis
      using False nonempty assms(2)
      by (cases "inputTextInternal P k txt w") (simp add: inputLargeText_def)
  qed
next
  case True
  from chunkingLoop_total [OF assms(1), of "txt" 0]
  obtain chunks where c: "chunkingLoop txt chunkSize 0 = Some (Inr chunks)"
    "concat chunks = txt" by auto
  from c(2) assms(3) have "\<forall>c \<in> set chunks. 0 \<notin> set c" by auto
  with assms(7) c(1) have "\<forall>c \<in> set chunks. utf8_decode c \<noteq> None \<and> 0 \<notin> set c"
    by blast
  from deliver_chunks_all_decode [OF assms(4,5) this,
      of k "(length txt + chunkSize - 1) div chunkSize" 0 0 w]
  obtain cps' where d: "utf8_decode (concat chunks) = Some cps'"
    "fst (deliver_chunks P k ((length txt + chunkSize - 1) div chunkSize) 0 0 chunks w)"
    "posted (snd (deliver_chunks P k ((length txt + chunkSize - 1) div chunkSize) 0 0 chunks w))
       = posted w @ keystrokes (source_ref k) (utf16_units cps')"
    by blast
  from d(1) c(2) assms(6) have "cps' = cps" by simp
  moreover have "inputLargeText P k txt chunkSize w
      = Some (Inr (deliver_chunks P k ((length txt + chunkSize - 1) div chunkSize) 0 0 chunks w))"
    using True assms(2) inputLargeTextOptimized_loop_chunks [OF c(1), of P k 0 w]
    by (auto simp: inputLargeText_def inputLargeTextOptimized_def)
  ultimately show ?thesis
    using d(2,3)
    by (cases "deliver_chunks P k ((length txt + chunkSize - 1) div chunkSize) 0 0 chunks w")
       simp
qed

theorem chunked_delivery_preserves_characters_witness:
  "(2::nat) \<le> 2 \<and> isInitialized ready_keyboard \<and> 0 \<notin> set [0x61, 0xC3, 0xA9, 0x62 :: byte]
   \<and> CFStringCreateWithCString strict_platform = utf8_to_utf16
   \<and> (\<forall>n. event_created strict_platform n)
   \<and> utf8_decode [0x61, 0xC3, 0xA9, 0x62] = Some [0x61, 0xE9, 0x62]
   \<and> chunkingLoop [0x61, 0xC3, 0xA9, 0x62] 2 0 = Some (Inr [[0x61], [0xC3, 0xA9], [0x62]])
   \<and> utf8_decode [0x61] = Some [0x61] \<and> utf8_decode [0xC3, 0xA9] = Some [0xE9]
   \<and> utf8_decode [0x62] = Some [0x62]
   \<and> (\<exists>w'. inputLargeText strict_platform ready_keyboard [0x61, 0xC3, 0xA9, 0x62] 2 fresh_world
              = Some (Inr (True, w'))
          \<and> posted w' = [KeyboardEvent (Some 0) True 0x61, KeyboardEvent (Some 0) False 0x61,
                          KeyboardEvent (Some 0) True 0xE9, KeyboardEvent (Some 0) False 0xE9,
                          KeyboardEvent (Some 0) True 0x62, KeyboardEvent (Some 0) False 0x62])"
proof -
  let ?t = "[0x61, 0xC3, 0xA9, 0x62 :: byte]"
  have h1: "(2::nat) \<le> 2" by simp
  have h2: "isInitialized ready_keyboard" by (simp add: ready_keyboard_def)
  have h3: "0 \<notin> set ?t" by simp
  have h4: "CFStringCreateWithCString strict_platform = utf8_to_utf16"
    by (simp add: strict_platform_def)
  have h5: "\<forall>n. event_created strict_platform n" by (simp add: strict_platform_def)
  have h6: "utf8_decode ?t = Some [0x61, 0xE9, 0x62]"
    by (simp add: is_continuation_def)
  have c: "chunkingLoop ?t 2 0 = Some (Inr [[0x61], [0xC3, 0xA9], [0x62]])"
    by (simp add: chunkingLoop.simps adjustChunkSize_def size_sub_def)
  have ds: "utf8_decode [0x61] = Some [0x61]" "utf8_decode [0xC3, 0xA9] = Some [0xE9]"
    "utf8_decode [0x62] = Some [0x62]"
    by (simp_all add: is_continuation_def)
  have h7: "\<forall>chunks. chunkingLoop ?t 2 0 = Some (Inr chunks) \<longrightarrow>
       (\<forall>c \<in> set chunks. utf8_decode c \<noteq> None)"
    using c ds by auto
  have p: "posted fresh_world = []" by (simp add: posted_def fresh_world_def)
  have k: "keystrokes (source_ref ready_keyboard) (utf16_units [0x61, 0xE9, 0x62])
      = [KeyboardEvent (Some 0) True 0x61, KeyboardEvent (Some 0) False 0x61,
         KeyboardEvent (Some 0) True 0xE9, KeyboardEvent (Some 0) False 0xE9,
         KeyboardEvent (Some 0) True 0x62, KeyboardEvent (Some 0) False 0x62]"
    by (simp add: keystrokes_def utf16_units_def utf16_encode_def ready_keyboard_def)
  from chunked_delivery_preserves_characters [OF h1 h2 h3 h4 h5 h6 h7, of fresh_world]
  show ?thesis using h2 h4 h5 h6 c ds p k by simp
qed

lemma keyboard_failed_message_nonempty: "keyboard_failed_message \<noteq> []"
  by (simp add: keyboard_failed_message_def)

section \<open>The claims\<close>

text \<open>
  C1 says that for every non-empty text and every chunk size of at least 1 the chunks
  of the loop concatenate to the text. It fails at chunk size 1: for the two bytes of
  U+00E9 the byte before the first candidate boundary is a lead byte, the chunk length
  becomes 0 and the position never moves, so the loop produces no chunk sequence and
  nothing concatenates to the text. For every chunk size of at least 2 the chunks do
  concatenate to the text (\<open>chunkingLoop_total\<close>).
\<close>

theorem chunking_never_returns_at_size_one:
  "chunkingLoop [0xC3, 0xA9] 1 0 = None"
  by (rule chunkingLoop_stuck) (simp_all add: adjustChunkSize_def size_sub_def)

text \<open>
  C2 says that the characters delivered as keystroke events are those of the text, none
  split at a chunk boundary, duplicated or dropped. It fails at the default chunk size.
  The text of 998 letters a, the 3-byte character U+4E2D and one more a is well-formed
  and has 1000 characters. The first candidate
  boundary, at byte 1000, falls after the second byte of U+4E2D; that byte is a
  continuation byte, not a lead, so the boundary stays and the character is split. The
  first chunk does not decode, \<open>simulateKeyboardInput\<close> returns failure and no
  keystroke event is posted for any of the 1000 characters.
\<close>

theorem split_character_fails_insertion:
  "utf8_decode (replicate 998 0x61 @ [0xE4, 0xB8, 0xAD, 0x61])
     = Some (replicate 998 0x61 @ [0x4E2D, 0x61])
   \<and> chunkingLoop (replicate 998 0x61 @ [0xE4, 0xB8, 0xAD, 0x61]) 1000 0
       = Some (Inr [replicate 998 0x61 @ [0xE4, 0xB8], [0xAD, 0x61]])
   \<and> utf8_decode (replicate 998 0x61 @ [0xE4, 0xB8]) = None
   \<and> simulateKeyboardInput strict_platform (replicate 998 0x61 @ [0xE4, 0xB8, 0xAD, 0x61])
         fresh_world
       = Some (Inr (False,
           \<lparr>trace = [Log (SimulateStart 1002), Log KeyboardSystemInitialized,
                     Log (ChunkProgress 1 2 0 1000), Log CFStringFailed, Log ChunkFailed,
                     Log SimulateFailed],
            event_calls = 0, source_calls = 1, live_sources = [0],
            gKeyboardSystem = Some \<lparr>source_ref = Some 0, isInitialized = True\<rparr>\<rparr>))"
proof -
  define pre :: "byte list" where "pre = replicate 998 0x61"
  define t where "t = pre @ [0xE4, 0xB8, 0xAD, 0x61]"
  have pre: "length pre = 998" "\<forall>b \<in> set pre. b < 0x80" "0 \<notin> set pre"
    "map unat pre = replicate 998 0x61"
    by (simp_all add: pre_def)
  have len: "length t = 1002" by (simp add: t_def pre)
  have d: "utf8_decode t = Some (replicate 998 0x61 @ [0x4E2D, 0x61])"
    unfolding t_def by (simp add: utf8_decode_ascii [OF pre(2)] pre(4) is_continuation_def)
  have tk: "take 1000 t = pre @ [0xE4, 0xB8]" "drop 1000 t = [0xAD, 0x61]"
    by (simp_all add: t_def pre)
  have bad: "utf8_decode (pre @ [0xE4, 0xB8]) = None"
    by (simp add: utf8_decode_ascii [OF pre(2)])
  have "t ! 999 = 0xB8" by (simp add: t_def nth_append pre)
  then have a0: "adjustChunkSize t 0 1000 = Inr 1000"
    using adjustChunkSize_before_end [of 1000 0 t] by (simp add: len)
  have a1: "adjustChunkSize t 1000 2 = Inr 2"
    using adjustChunkSize_at_end [of 1000 t 2] by (simp add: len)
  have c2: "chunkingLoop t 1000 1002 = Some (Inr [])"
    by (simp add: chunkingLoop_Nil len)
  have c1: "chunkingLoop t 1000 1000 = Some (Inr [[0xAD, 0x61]])"
    by (subst chunkingLoop.simps) (simp add: len a1 c2 tk)
  have c0: "chunkingLoop t 1000 0 = Some (Inr [pre @ [0xE4, 0xB8], [0xAD, 0x61]])"
    by (subst chunkingLoop.simps) (simp add: len a0 c1 tk)
  have cs: "c_str (pre @ [0xE4, 0xB8]) = pre @ [0xE4, 0xB8]"
    by (rule c_str_no_NUL) (simp add: pre)
  have fail: "\<And>v. inputTextInternal strict_platform ready_keyboard (pre @ [0xE4, 0xB8]) v
      = (False, emit (Log CFStringFailed) v)"
    by (simp add: inputTextInternal_def inputUnicodeText_def cs strict_platform_def
        utf8_to_utf16_def bad)
  have loop: "\<And>v. inputLargeTextOptimized_loop strict_platform ready_keyboard t 1000 0 0 v
      = Some (Inr (False, emit (Log ChunkFailed)
          (emit (Log CFStringFailed) (emit (Log (ChunkProgress 1 2 0 1000)) v))))"
    by (subst inputLargeTextOptimized_loop.simps) (simp add: len a0 tk fail)
  have nonempty: "t \<noteq> []" using len by auto
  have "simulateKeyboardInput strict_platform t fresh_world
       = Some (Inr (False,
           \<lparr>trace = [Log (SimulateStart 1002), Log KeyboardSystemInitialized,
                     Log (ChunkProgress 1 2 0 1000), Log CFStringFailed, Log ChunkFailed,
                     Log SimulateFailed],
            event_calls = 0, source_calls = 1, live_sources = [0],
            gKeyboardSystem = Some \<lparr>source_ref = Some 0, isInitialized = True\<rparr>\<rparr>))"
    by (simp add: simulateKeyboardInput_def getKeyboardSystem_def new_KeyboardInputSystem_def
        initialize_def CGEventSourceCreate_def fresh_world_def len nonempty
        inputLargeText_def inputLargeTextOptimized_def
        loop [unfolded ready_keyboard_def strict_platform_def]
        strict_platform_def emit_def)
  with d c0 bad show ?thesis by (simp add: t_def pre_def)
qed

text \<open>
  C3 says that for every chunk size of at least 1 the loop terminates and every chunk
  is non-empty. It fails at chunk size 1: for the two bytes of U+00E9
  \<open>adjustChunkSize\<close> returns 0 for a remainder of two bytes, and \<open>inputLargeText\<close>
  delivers the empty chunk forever, so it never returns. For every chunk size of at
  least 2 every chunk is non-empty and the call returns (\<open>chunkingLoop_total\<close>,
  \<open>inputLargeText_total\<close>).
\<close>

theorem empty_chunk_loops_forever_at_size_one:
  "adjustChunkSize [0xC3, 0xA9] 0 (min 1 (length [0xC3, 0xA9 :: byte] - 0)) = Inr 0
   \<and> inputLargeText strict_platform ready_keyboard [0xC3, 0xA9] 1 w = None"
proof
  show a: "adjustChunkSize [0xC3, 0xA9] 0 (min 1 (length [0xC3, 0xA9 :: byte] - 0)) = Inr 0"
    by (simp add: adjustChunkSize_def size_sub_def)
  have "inputLargeTextOptimized_loop strict_platform ready_keyboard [0xC3, 0xA9] 1 0 0 w = None"
    by (rule loop_stuck [OF _ _ a])
       (simp_all add: strict_platform_def utf8_to_utf16_def utf16_units_def)
  then show "inputLargeText strict_platform ready_keyboard [0xC3, 0xA9] 1 w = None"
    by (simp add: inputLargeText_def inputLargeTextOptimized_def ready_keyboard_def)
qed

text \<open>
  C4. For a candidate boundary strictly before the end of the text (a chunk size of at
  least 1), the chunk length is reduced by exactly one byte when the byte just before
  the boundary is a 2-, 3- or 4-byte UTF-8 lead, and is unchanged otherwise. For 999
  one-byte characters followed by one 4-byte character and chunk size 1000, the first
  chunk is the 999 bytes and the second is the whole 4-byte character.
\<close>

theorem adjustChunkSize_backs_off_one_byte:
  "(0 < chunkSize \<and> position + chunkSize < length txt \<longrightarrow>
      adjustChunkSize txt position chunkSize =
        Inr (if txt ! (position + chunkSize - 1) AND 0xE0 = 0xC0
              \<or> txt ! (position + chunkSize - 1) AND 0xF0 = 0xE0
              \<or> txt ! (position + chunkSize - 1) AND 0xF8 = 0xF0
             then chunkSize - 1 else chunkSize))
   \<and> (length pre = 999 \<and> (\<forall>b \<in> set pre. b < 0x80) \<and> b0 AND 0xF8 = 0xF0 \<longrightarrow>
        chunkingLoop (pre @ [b0, b1, b2, b3]) 1000 0 = Some (Inr [pre, [b0, b1, b2, b3]]))"
proof (intro conjI impI)
  assume "0 < chunkSize \<and> position + chunkSize < length txt"
  then show "adjustChunkSize txt position chunkSize =
        Inr (if txt ! (position + chunkSize - 1) AND 0xE0 = 0xC0
              \<or> txt ! (position + chunkSize - 1) AND 0xF0 = 0xE0
              \<or> txt ! (position + chunkSize - 1) AND 0xF8 = 0xF0
             then chunkSize - 1 else chunkSize)"
    by (simp add: adjustChunkSize_before_end)
next
  assume a: "length pre = 999 \<and> (\<forall>b \<in> set pre. b < 0x80) \<and> b0 AND 0xF8 = 0xF0"
  define t where "t = pre @ [b0, b1, b2, b3]"
  have len: "length t = 1003" using a by (simp add: t_def)
  have last: "t ! 999 = b0" using a by (simp add: t_def nth_append)
  have first: "adjustChunkSize t 0 1000 = Inr 999"
    using a len last adjustChunkSize_before_end [of 1000 0 t] by simp
  have second: "adjustChunkSize t 999 4 = Inr 4"
    using adjustChunkSize_at_end [of 999 t 4] by (simp add: len)
  have third: "chunkingLoop t 1000 1003 = Some (Inr [])"
    by (simp add: chunkingLoop_Nil len)
  have two: "chunkingLoop t 1000 999 = Some (Inr [take 4 (drop 999 t)])"
    by (subst chunkingLoop.simps) (simp add: len second third)
  have "chunkingLoop t 1000 0 = Some (Inr [take 999 (drop 0 t), take 4 (drop 999 t)])"
    by (subst chunkingLoop.simps) (simp add: len first two)
  moreover have "take 999 (drop 0 t) = pre" "take 4 (drop 999 t) = [b0, b1, b2, b3]"
    using a by (simp_all add: t_def)
  ultimately show "chunkingLoop (pre @ [b0, b1, b2, b3]) 1000 0
      = Some (Inr [pre, [b0, b1, b2, b3]])"
    by (simp add: t_def)
qed

theorem adjustChunkSize_backs_off_one_byte_witness:
  "adjustChunkSize [0x61, 0xC3, 0xA9, 0x62] 0 2 = Inr 1
   \<and> adjustChunkSize [0x61, 0x62, 0x63, 0x64] 0 2 = Inr 2
   \<and> chunkingLoop (replicate 999 0x61 @ [0xF0, 0x9F, 0x98, 0x80]) 1000 0
       = Some (Inr [replicate 999 0x61, [0xF0, 0x9F, 0x98, 0x80]])"
  using adjustChunkSize_backs_off_one_byte
          [of 2 0 "[0x61, 0xC3, 0xA9, 0x62]" "replicate 999 0x61" "0xF0" "0x9F" "0x98" "0x80"]
        adjustChunkSize_backs_off_one_byte
          [of 2 0 "[0x61, 0x62, 0x63, 0x64]" "[]" 0 0 0 0]
  by simp

text \<open>
  C5. Called on an uninitialized injector, \<open>inputLargeText\<close> returns failure at once
  for every text, writes the message that the system is not initialized and posts no
  event. \<open>simulateKeyboardInput\<close>, whose singleton did not initialize, returns failure
  before it calls \<open>inputLargeText\<close>, also with no event posted.
\<close>

theorem uninitialized_fails_without_events:
  "(\<not> isInitialized k \<longrightarrow>
      inputLargeText P k txt chunkSize w
        = Some (Inr (False, emit (Log KeyboardNotInitialized) w))
      \<and> posted (emit (Log KeyboardNotInitialized) w) = posted w
      \<and> messages (emit (Log KeyboardNotInitialized) w) = messages w @ [KeyboardNotInitialized])
   \<and> (\<not> isInitialized (fst (getKeyboardSystem P (emit (Log (SimulateStart (length txt))) w))) \<longrightarrow>
        (\<exists>w'. simulateKeyboardInput P txt w = Some (Inr (False, w')) \<and> posted w' = posted w
           \<and> messages w' = messages w
                @ [SimulateStart (length txt)]
                @ (if gKeyboardSystem w = None then [KeyboardSystemInitialized] else [])
                @ [SimulateInitFailed]))"
proof (intro conjI impI)
  assume "\<not> isInitialized k"
  then show "inputLargeText P k txt chunkSize w
        = Some (Inr (False, emit (Log KeyboardNotInitialized) w))"
    by (simp add: inputLargeText_def)
  show "posted (emit (Log KeyboardNotInitialized) w) = posted w" by simp
  show "messages (emit (Log KeyboardNotInitialized) w) = messages w @ [KeyboardNotInitialized]"
    by (simp add: messages_def emit_def)
next
  define w0 where "w0 = emit (Log (SimulateStart (length txt))) w"
  assume "\<not> isInitialized (fst (getKeyboardSystem P (emit (Log (SimulateStart (length txt))) w)))"
  then have u: "\<not> isInitialized (fst (getKeyboardSystem P w0))" by (simp add: w0_def)
  have r: "simulateKeyboardInput P txt w
      = Some (Inr (False, emit (Log SimulateInitFailed) (snd (getKeyboardSystem P w0))))"
    using u by (cases "getKeyboardSystem P w0") (simp add: simulateKeyboardInput_def w0_def)
  have t: "trace (snd (getKeyboardSystem P w0))
      = trace w @ [Log (SimulateStart (length txt))]
          @ (if gKeyboardSystem w = None then [Log KeyboardSystemInitialized] else [])"
    by (simp add: getKeyboardSystem_def new_KeyboardInputSystem_def initialize_def
        CGEventSourceCreate_def w0_def emit_def split: option.splits prod.splits)
  have "posted (emit (Log SimulateInitFailed) (snd (getKeyboardSystem P w0))) = posted w"
    using t by (simp add: posted_def emit_def)
  moreover have "messages (emit (Log SimulateInitFailed) (snd (getKeyboardSystem P w0)))
      = messages w @ [SimulateStart (length txt)]
          @ (if gKeyboardSystem w = None then [KeyboardSystemInitialized] else [])
          @ [SimulateInitFailed]"
    using t by (simp add: messages_def emit_def)
  ultimately show "\<exists>w'. simulateKeyboardInput P txt w = Some (Inr (False, w')) \<and> posted w' = posted w
           \<and> messages w' = messages w
                @ [SimulateStart (length txt)]
                @ (if gKeyboardSystem w = None then [KeyboardSystemInitialized] else [])
                @ [SimulateInitFailed]"
    using r by blast
qed

theorem uninitialized_fails_without_events_witness:
  "\<not> isInitialized \<lparr>source_ref = None, isInitialized = False\<rparr>
   \<and> inputLargeText strict_platform \<lparr>source_ref = None, isInitialized = False\<rparr> [0x61] 1000 fresh_world
       = Some (Inr (False, fresh_world\<lparr>trace := [Log KeyboardNotInitialized]\<rparr>))
   \<and> \<not> isInitialized (fst (getKeyboardSystem refusing_platform
          (emit (Log (SimulateStart (length [0x61 :: byte]))) fresh_world)))
   \<and> (\<exists>w'. simulateKeyboardInput refusing_platform [0x61] fresh_world = Some (Inr (False, w'))
          \<and> posted w' = []
          \<and> messages w' = [SimulateStart 1, KeyboardSystemInitialized, SimulateInitFailed])"
  using uninitialized_fails_without_events
    [of "\<lparr>source_ref = None, isInitialized = False\<rparr>" strict_platform "[0x61]" 1000 fresh_world]
    uninitialized_fails_without_events
    [of "\<lparr>source_ref = None, isInitialized = False\<rparr>" refusing_platform "[0x61]" 1000 fresh_world]
  by (simp add: fresh_world_def emit_def posted_def messages_def refusing_platform_def
      strict_platform_def getKeyboardSystem_def new_KeyboardInputSystem_def initialize_def
      CGEventSourceCreate_def)

text \<open>
  C6. In a multi-chunk insertion whose chunks are \<open>pre\<close>, then \<open>bad\<close>, then
  \<open>rest\<close>, where the chunks of \<open>pre\<close> decode and \<open>bad\<close> does not, the operation
  returns failure; the events posted are those of delivering the chunks of \<open>pre\<close> in
  order, so nothing is posted for \<open>bad\<close> or any chunk after it, and what was posted
  before and during \<open>pre\<close> stays posted.
\<close>

theorem failing_chunk_aborts_without_rollback:
  assumes "isInitialized k" "chunkSize < length txt"
    "chunkingLoop txt chunkSize 0 = Some (Inr (pre @ bad # rest))"
    "\<forall>c \<in> set pre. CFStringCreateWithCString P (c_str c) \<noteq> None"
    "CFStringCreateWithCString P (c_str bad) = None"
  shows "\<exists>w'. inputLargeText P k txt chunkSize w = Some (Inr (False, w'))
     \<and> posted w' = posted (fold (\<lambda>c v. snd (inputTextInternal P k c v)) pre w)
     \<and> (\<exists>es. posted w' = posted w @ es)"
proof -
  define res where "res = deliver_chunks P k ((length txt + chunkSize - 1) div chunkSize)
      0 0 (pre @ bad # rest) w"
  have "inputLargeText P k txt chunkSize w = Some (Inr res)"
    using assms(1,2) inputLargeTextOptimized_loop_chunks [OF assms(3), of P k 0 w]
    by (auto simp: inputLargeText_def inputLargeTextOptimized_def res_def)
  moreover have "\<not> fst res"
    "posted (snd res) = posted (fold (\<lambda>c v. snd (inputTextInternal P k c v)) pre w)"
    using deliver_chunks_failure [OF assms(4,5) refl refl] by (simp_all add: res_def)
  moreover have "\<exists>es. posted (fold (\<lambda>c v. snd (inputTextInternal P k c v)) pre w) = posted w @ es"
    by (rule fold_deliver_extends)
  ultimately show ?thesis by (cases res) auto
qed

theorem failing_chunk_aborts_without_rollback_witness:
  "isInitialized ready_keyboard
   \<and> 2 < length [0x61, 0x62, 0xE4, 0xB8, 0xAD, 0x63 :: byte]
   \<and> chunkingLoop [0x61, 0x62, 0xE4, 0xB8, 0xAD, 0x63] 2 0
       = Some (Inr ([[0x61, 0x62]] @ [0xE4, 0xB8] # [[0xAD, 0x63]]))
   \<and> CFStringCreateWithCString strict_platform (c_str [0x61, 0x62]) = Some [0x61, 0x62]
   \<and> CFStringCreateWithCString strict_platform (c_str [0xE4, 0xB8]) = None
   \<and> (\<exists>w'. inputLargeText strict_platform ready_keyboard [0x61, 0x62, 0xE4, 0xB8, 0xAD, 0x63] 2
              fresh_world = Some (Inr (False, w'))
          \<and> posted w' = [KeyboardEvent (Some 0) True 0x61, KeyboardEvent (Some 0) False 0x61,
                          KeyboardEvent (Some 0) True 0x62, KeyboardEvent (Some 0) False 0x62])"
proof -
  let ?t = "[0x61, 0x62, 0xE4, 0xB8, 0xAD, 0x63 :: byte]"
  have i: "isInitialized ready_keyboard" by (simp add: ready_keyboard_def)
  have l: "2 < length ?t" by simp
  have c: "chunkingLoop ?t 2 0 = Some (Inr ([[0x61, 0x62]] @ [0xE4, 0xB8] # [[0xAD, 0x63]]))"
    by (simp add: chunkingLoop.simps adjustChunkSize_def size_sub_def)
  have d1: "CFStringCreateWithCString strict_platform (c_str [0x61, 0x62]) = Some [0x61, 0x62]"
    by (simp add: strict_platform_def c_str_def utf8_to_utf16_def utf16_units_def
        utf16_encode_def)
  then have d1': "\<forall>c \<in> set [[0x61, 0x62 :: byte]]. CFStringCreateWithCString strict_platform (c_str c) \<noteq> None"
    by simp
  have d2: "CFStringCreateWithCString strict_platform (c_str [0xE4, 0xB8]) = None"
    by (simp add: strict_platform_def c_str_def utf8_to_utf16_def)
  have p: "posted (fold (\<lambda>c v. snd (inputTextInternal strict_platform ready_keyboard c v))
        [[0x61, 0x62]] fresh_world)
      = [KeyboardEvent (Some 0) True 0x61, KeyboardEvent (Some 0) False 0x61,
         KeyboardEvent (Some 0) True 0x62, KeyboardEvent (Some 0) False 0x62]"
  proof -
    have "posted fresh_world = []" "event_calls fresh_world = 0"
      by (simp_all add: posted_def fresh_world_def)
    moreover have "event_created strict_platform = (\<lambda>n. True)"
      by (simp add: strict_platform_def)
    ultimately show ?thesis
      using d1 by (simp add: inputTextInternal_def inputUnicodeText_posted ready_keyboard_def)
  qed
  from failing_chunk_aborts_without_rollback [OF i l c d1' d2, of fresh_world] p
  show ?thesis using i l c d1 d2 by auto
qed

text \<open>
  C7, as stated, fails: \<open>initialize\<close> creates an event source on every call. Called
  twice on a platform that grants every source, it holds source 0 after the first call
  and source 1 after the second, and source 0 is still live, held by nothing.
\<close>

theorem initialize_twice_leaks_counterexample:
  "initialize strict_platform \<lparr>source_ref = None, isInitialized = False\<rparr> fresh_world
     = (True, \<lparr>source_ref = Some 0, isInitialized = True\<rparr>,
        fresh_world\<lparr>source_calls := 1, live_sources := [0]\<rparr>)
   \<and> initialize strict_platform \<lparr>source_ref = Some 0, isInitialized = True\<rparr>
        (fresh_world\<lparr>source_calls := 1, live_sources := [0]\<rparr>)
     = (True, \<lparr>source_ref = Some 1, isInitialized = True\<rparr>,
        fresh_world\<lparr>source_calls := 2, live_sources := [1, 0]\<rparr>)"
  by (simp add: initialize_def CGEventSourceCreate_def strict_platform_def fresh_world_def)

text \<open>
  C7, amended. Calling the singleton accessor \<open>getKeyboardSystem\<close> twice in succession
  gives the same injector and the same process state as calling it once: the second
  call creates no event source, so the handle held is the one of the first call and the
  live sources are those after the first call. The first call creates at most one
  source, and the injector is initialized exactly when it was created.
\<close>

theorem getKeyboardSystem_idempotent:
  "getKeyboardSystem P (snd (getKeyboardSystem P w)) = getKeyboardSystem P w
   \<and> gKeyboardSystem (snd (getKeyboardSystem P w)) = Some (fst (getKeyboardSystem P w))
   \<and> source_calls (snd (getKeyboardSystem P w))
       = (if gKeyboardSystem w = None then source_calls w + 1 else source_calls w)
   \<and> live_sources (snd (getKeyboardSystem P w))
       = (if gKeyboardSystem w = None \<and> source_created P (source_calls w)
          then source_calls w # live_sources w else live_sources w)
   \<and> (if gKeyboardSystem w = None
       then source_ref (fst (getKeyboardSystem P w))
              = (if source_created P (source_calls w) then Some (source_calls w) else None)
            \<and> isInitialized (fst (getKeyboardSystem P w)) = source_created P (source_calls w)
       else Some (fst (getKeyboardSystem P w)) = gKeyboardSystem w)"
  by (cases "gKeyboardSystem w")
     (simp_all add: getKeyboardSystem_def new_KeyboardInputSystem_def initialize_def
        CGEventSourceCreate_def emit_def)

text \<open>
  C8. Splitting the empty text yields zero chunks, and \<open>inputLargeText\<close> on the empty
  string with the injector initialized returns success and leaves the world as it was:
  no keystroke event is posted.
\<close>

theorem empty_text_no_chunks_no_events:
  "chunkingLoop [] chunkSize 0 = Some (Inr [])
   \<and> inputLargeTextOptimized P k [] chunkSize w = Some (Inr (True, w))
   \<and> (isInitialized k \<longrightarrow> inputLargeText P k [] chunkSize w = Some (Inr (True, w)))"
proof (intro conjI impI)
  show "chunkingLoop [] chunkSize 0 = Some (Inr [])"
    by (simp add: chunkingLoop_Nil)
  show "inputLargeTextOptimized P k [] chunkSize w = Some (Inr (True, w))"
    unfolding inputLargeTextOptimized_def
    by (subst inputLargeTextOptimized_loop.simps) simp
  assume "isInitialized k"
  then show "inputLargeText P k [] chunkSize w = Some (Inr (True, w))"
    by (simp add: inputLargeText_def)
qed

theorem empty_text_no_chunks_no_events_witness:
  "isInitialized ready_keyboard
   \<and> chunkingLoop [] 1000 0 = Some (Inr [])
   \<and> inputLargeText strict_platform ready_keyboard [] 1000 fresh_world = Some (Inr (True, fresh_world))
   \<and> posted fresh_world = []"
  using empty_text_no_chunks_no_events [of 1000 strict_platform ready_keyboard fresh_world]
  by (simp add: ready_keyboard_def posted_def fresh_world_def)

text \<open>
  C9. Whenever \<open>InsertText\<close> returns a result object, its success flag is the value
  returned by \<open>simulateKeyboardInput\<close> on the request's text; on success the method is
  "keyboard" and the error is null, on failure the method is the empty string and the
  error is the fixed non-empty message. The result has no other field. A request whose
  first argument is an object with a string \<open>text\<close> and an absent or string
  \<open>targetApp\<close> always gets such a result.
\<close>

theorem InsertText_result_shape:
  "(InsertText P info w = Some (Inr (r, w')) \<longrightarrow>
      (\<exists>t. Utf8Value (Get (info ! 0) ''text'') = Inr t
         \<and> simulateKeyboardInput P t (emit (Log (InsertTextStart (length t))) w)
             = Some (Inr (result_success r, w')))
      \<and> (result_success r \<longrightarrow>
            result_method r = ascii ''keyboard'' \<and> result_error r = None)
      \<and> (\<not> result_success r \<longrightarrow>
            result_method r = [] \<and> result_error r = Some keyboard_failed_message
            \<and> keyboard_failed_message \<noteq> []))
   \<and> (info = JSObject props # others \<and> map_of props ''text'' = Some (JSString txt)
        \<and> (map_of props ''targetApp'' = None
             \<or> (\<exists>a. map_of props ''targetApp'' = Some (JSString a))) \<longrightarrow>
        (\<exists>r w'. InsertText P info w = Some (Inr (r, w'))))"
proof (intro conjI impI)
  assume a: "InsertText P info w = Some (Inr (r, w'))"
  from a have ok: "\<not> (length info < 1 \<or> \<not> IsObject (info ! 0))"
    by (auto simp: InsertText_def split: if_splits)
  from a ok obtain t where t: "Utf8Value (Get (info ! 0) ''text'') = Inr t"
    by (cases "Utf8Value (Get (info ! 0) ''text'')") (auto simp: InsertText_def Let_def)
  from a ok t obtain ta where ta:
    "(if Get (info ! 0) ''targetApp'' = JSUndefined then Inr []
      else Utf8Value (Get (info ! 0) ''targetApp'')) = Inr ta"
    by (cases "if Get (info ! 0) ''targetApp'' = JSUndefined then Inr []
      else Utf8Value (Get (info ! 0) ''targetApp'')")
       (auto simp: InsertText_def Let_def)
  from a ok t ta obtain res where res:
    "simulateKeyboardInput P t (emit (Log (InsertTextStart (length t))) w) = Some res"
    "(case res of Inl f \<Rightarrow> Inl f
      | Inr (success, w') \<Rightarrow>
          Inr (\<lparr>result_success = success,
                result_method = (if success then ascii ''keyboard'' else []),
                result_error = (if success then None else Some keyboard_failed_message)\<rparr>,
               w')) = Inr (r, w')"
    by (auto simp: InsertText_def Let_def bind_eq_Some_conv)
  from res(2) obtain success where s: "res = Inr (success, w')"
    "r = \<lparr>result_success = success,
                result_method = (if success then ascii ''keyboard'' else []),
                result_error = (if success then None else Some keyboard_failed_message)\<rparr>"
    by (cases res) (auto split: prod.splits)
  show "\<exists>t. Utf8Value (Get (info ! 0) ''text'') = Inr t
         \<and> simulateKeyboardInput P t (emit (Log (InsertTextStart (length t))) w)
             = Some (Inr (result_success r, w'))"
    using t res(1) s by simp
  show "result_method r = ascii ''keyboard''" if "result_success r"
    using that s by simp
  show "result_error r = None" if "result_success r"
    using that s by simp
  show "result_method r = []" if "\<not> result_success r"
    using that s by simp
  show "result_error r = Some keyboard_failed_message" if "\<not> result_success r"
    using that s by simp
  show "keyboard_failed_message \<noteq> []"
    by (rule keyboard_failed_message_nonempty)
next
  assume b: "info = JSObject props # others \<and> map_of props ''text'' = Some (JSString txt)
        \<and> (map_of props ''targetApp'' = None
             \<or> (\<exists>a. map_of props ''targetApp'' = Some (JSString a)))"
  obtain ok w2 where
    "simulateKeyboardInput P txt (emit (Log (InsertTextStart (length txt))) w)
       = Some (Inr (ok, w2))"
    using simulateKeyboardInput_total by blast
  with b show "\<exists>r w'. InsertText P info w = Some (Inr (r, w'))"
    by (auto simp: InsertText_def IsObject_def Get_def Utf8Value_def)
qed

theorem InsertText_result_shape_witness:
  "InsertText strict_platform [JSObject [(''text'', JSString [0x61])]] fresh_world
     = Some (Inr (\<lparr>result_success = True, result_method = ascii ''keyboard'',
                    result_error = None\<rparr>,
                  \<lparr>trace = [Log (InsertTextStart 1), Log (SimulateStart 1),
                            Log KeyboardSystemInitialized,
                            Post (KeyboardEvent (Some 0) True 0x61),
                            Post (KeyboardEvent (Some 0) False 0x61), Sleep 5000,
                            Log SimulateSucceeded],
                   event_calls = 2, source_calls = 1, live_sources = [0],
                   gKeyboardSystem = Some \<lparr>source_ref = Some 0, isInitialized = True\<rparr>\<rparr>))
   \<and> InsertText refusing_platform [JSObject [(''text'', JSString [0x61])]] fresh_world
     = Some (Inr (\<lparr>result_success = False, result_method = [],
                    result_error = Some keyboard_failed_message\<rparr>,
                  \<lparr>trace = [Log (InsertTextStart 1), Log (SimulateStart 1),
                            Log KeyboardSystemInitialized, Log SimulateInitFailed],
                   event_calls = 0, source_calls = 1, live_sources = [],
                   gKeyboardSystem = Some \<lparr>source_ref = None, isInitialized = False\<rparr>\<rparr>))
   \<and> keyboard_failed_message \<noteq> []"
proof -
  let ?info = "[JSObject [(''text'', JSString [0x61])]]"
  have wf: "?info = JSObject [(''text'', JSString [0x61])] # []
      \<and> map_of [(''text'', JSString [0x61])] ''text'' = Some (JSString [0x61])
      \<and> (map_of [(''text'', JSString [0x61])] ''targetApp'' = None
           \<or> (\<exists>a. map_of [(''text'', JSString [0x61])] ''targetApp'' = Some (JSString a)))"
    by simp
  have t: "Utf8Value (Get (?info ! 0) ''text'') = Inr [0x61]"
    by (simp add: Utf8Value_def Get_def)
  have s0: "simulateKeyboardInput strict_platform [0x61]
        (emit (Log (InsertTextStart (length [0x61 :: byte]))) fresh_world)
      = Some (Inr (True,
                  \<lparr>trace = [Log (InsertTextStart 1), Log (SimulateStart 1),
                            Log KeyboardSystemInitialized,
                            Post (KeyboardEvent (Some 0) True 0x61),
                            Post (KeyboardEvent (Some 0) False 0x61), Sleep 5000,
                            Log SimulateSucceeded],
                   event_calls = 2, source_calls = 1, live_sources = [0],
                   gKeyboardSystem = Some \<lparr>source_ref = Some 0, isInitialized = True\<rparr>\<rparr>))"
    by (simp add: simulateKeyboardInput_def getKeyboardSystem_def new_KeyboardInputSystem_def
        initialize_def CGEventSourceCreate_def strict_platform_def fresh_world_def emit_def
        inputLargeText_def inputTextInternal_def inputUnicodeText_def c_str_def
        utf8_to_utf16_def utf16_units_def utf16_encode_def
        CGEventCreateKeyboardEvent_def CGEventPost_def usleep_def)
  have s1: "simulateKeyboardInput refusing_platform [0x61]
        (emit (Log (InsertTextStart (length [0x61 :: byte]))) fresh_world)
      = Some (Inr (False,
                  \<lparr>trace = [Log (InsertTextStart 1), Log (SimulateStart 1),
                            Log KeyboardSystemInitialized, Log SimulateInitFailed],
                   event_calls = 0, source_calls = 1, live_sources = [],
                   gKeyboardSystem = Some \<lparr>source_ref = None, isInitialized = False\<rparr>\<rparr>))"
    by (simp add: simulateKeyboardInput_def getKeyboardSystem_def new_KeyboardInputSystem_def
        initialize_def CGEventSourceCreate_def refusing_platform_def strict_platform_def
        fresh_world_def emit_def)
  from InsertText_result_shape [of strict_platform ?info fresh_world _ _
      "[(''text'', JSString [0x61])]" "[]" "[0x61]"] wf
  obtain r0 w0 where e0: "InsertText strict_platform ?info fresh_world = Some (Inr (r0, w0))"
    by blast
  from InsertText_result_shape [of strict_platform ?info fresh_world r0 w0] e0 t s0
  have "result_success r0 \<and> result_method r0 = ascii ''keyboard'' \<and> result_error r0 = None
      \<and> w0 = \<lparr>trace = [Log (InsertTextStart 1), Log (SimulateStart 1),
                            Log KeyboardSystemInitialized,
                            Post (KeyboardEvent (Some 0) True 0x61),
                            Post (KeyboardEvent (Some 0) False 0x61), Sleep 5000,
                            Log SimulateSucceeded],
                   event_calls = 2, source_calls = 1, live_sources = [0],
                   gKeyboardSystem = Some \<lparr>source_ref = Some 0, isInitialized = True\<rparr>\<rparr>"
    by simp
  then have c0: "InsertText strict_platform ?info fresh_world
     = Some (Inr (\<lparr>result_success = True, result_method = ascii ''keyboard'',
                    result_error = None\<rparr>,
                  \<lparr>trace = [Log (InsertTextStart 1), Log (SimulateStart 1),
                            Log KeyboardSystemInitialized,
                            Post (KeyboardEvent (Some 0) True 0x61),
                            Post (KeyboardEvent (Some 0) False 0x61), Sleep 5000,
                            Log SimulateSucceeded],
                   event_calls = 2, source_calls = 1, live_sources = [0],
                   gKeyboardSystem = Some \<lparr>source_ref = Some 0, isInitialized = True\<rparr>\<rparr>))"
    using e0 by (cases r0) simp
  from InsertText_result_shape [of refusing_platform ?info fresh_world _ _
      "[(''text'', JSString [0x61])]" "[]" "[0x61]"] wf
  obtain r1 w1 where e1: "InsertText refusing_platform ?info fresh_world = Some (Inr (r1, w1))"
    by blast
  from InsertText_result_shape [of refusing_platform ?info fresh_world r1 w1] e1 t s1
  have "\<not> result_success r1 \<and> result_method r1 = []
      \<and> result_error r1 = Some keyboard_failed_message \<and> keyboard_failed_message \<noteq> []
      \<and> w1 = \<lparr>trace = [Log (InsertTextStart 1), Log (SimulateStart 1),
                            Log KeyboardSystemInitialized, Log SimulateInitFailed],
                   event_calls = 0, source_calls = 1, live_sources = [],
                   gKeyboardSystem = Some \<lparr>source_ref = None, isInitialized = False\<rparr>\<rparr>"
    by simp
  then have "InsertText refusing_platform ?info fresh_world
     = Some (Inr (\<lparr>result_success = False, result_method = [],
                    result_error = Some keyboard_failed_message\<rparr>,
                  \<lparr>trace = [Log (InsertTextStart 1), Log (SimulateStart 1),
                            Log KeyboardSystemInitialized, Log SimulateInitFailed],
                   event_calls = 0, source_calls = 1, live_sources = [],
                   gKeyboardSystem = Some \<lparr>source_ref = None, isInitialized = False\<rparr>\<rparr>))
      \<and> keyboard_failed_message \<noteq> []"
    using e1 by (cases r1) simp
  with c0 show ?thesis by simp
qed

text \<open>
  C10. Delivering one chunk succeeds exactly when its bytes decode, whatever happens to
  the events. A character whose key-down event is not created is skipped: nothing is
  posted for it and there is no delay. A character whose key-down is created and whose
  key-up is not has its key-down posted alone, followed by the delay. With both created
  the key-down, the key-up and the delay follow in this order.
\<close>

theorem chunk_delivery_fails_only_on_decode:
  "(fst (inputUnicodeText P k txt w) \<longleftrightarrow> CFStringCreateWithCString P (c_str txt) \<noteq> None)
   \<and> (\<not> event_created P (event_calls w) \<longrightarrow>
        inputUnicodeText_loop P k (c # cs) w
          = inputUnicodeText_loop P k cs (w\<lparr>event_calls := event_calls w + 1\<rparr>))
   \<and> (event_created P (event_calls w) \<and> \<not> event_created P (event_calls w + 1) \<longrightarrow>
        inputUnicodeText_loop P k (c # cs) w
          = inputUnicodeText_loop P k cs
              (w\<lparr>trace := trace w @ [Post (KeyboardEvent (source_ref k) True c), Sleep 5000],
                 event_calls := event_calls w + 2\<rparr>))
   \<and> (event_created P (event_calls w) \<and> event_created P (event_calls w + 1) \<longrightarrow>
        inputUnicodeText_loop P k (c # cs) w
          = inputUnicodeText_loop P k cs
              (w\<lparr>trace := trace w @ [Post (KeyboardEvent (source_ref k) True c),
                                      Post (KeyboardEvent (source_ref k) False c), Sleep 5000],
                 event_calls := event_calls w + 2\<rparr>))"
proof (intro conjI impI)
  show "fst (inputUnicodeText P k txt w) \<longleftrightarrow> CFStringCreateWithCString P (c_str txt) \<noteq> None"
    by (rule inputUnicodeText_ok)
next
  assume "\<not> event_created P (event_calls w)"
  then show "inputUnicodeText_loop P k (c # cs) w
          = inputUnicodeText_loop P k cs (w\<lparr>event_calls := event_calls w + 1\<rparr>)"
    by (simp add: CGEventCreateKeyboardEvent_def)
next
  assume "event_created P (event_calls w) \<and> \<not> event_created P (event_calls w + 1)"
  then show "inputUnicodeText_loop P k (c # cs) w
          = inputUnicodeText_loop P k cs
              (w\<lparr>trace := trace w @ [Post (KeyboardEvent (source_ref k) True c), Sleep 5000],
                 event_calls := event_calls w + 2\<rparr>)"
    by (cases w) (simp add: CGEventCreateKeyboardEvent_def CGEventPost_def usleep_def emit_def)
next
  assume "event_created P (event_calls w) \<and> event_created P (event_calls w + 1)"
  then show "inputUnicodeText_loop P k (c # cs) w
          = inputUnicodeText_loop P k cs
              (w\<lparr>trace := trace w @ [Post (KeyboardEvent (source_ref k) True c),
                                      Post (KeyboardEvent (source_ref k) False c), Sleep 5000],
                 event_calls := event_calls w + 2\<rparr>)"
    by (cases w) (simp add: CGEventCreateKeyboardEvent_def CGEventPost_def usleep_def emit_def)
qed

theorem chunk_delivery_fails_only_on_decode_witness:
  "\<not> event_created flaky_platform (event_calls fresh_world)
   \<and> event_created flaky_platform (event_calls (fresh_world\<lparr>event_calls := 1\<rparr>))
   \<and> \<not> event_created flaky_platform (event_calls (fresh_world\<lparr>event_calls := 1\<rparr>) + 1)
   \<and> event_created flaky_platform (event_calls (fresh_world\<lparr>event_calls := 3\<rparr>))
   \<and> event_created flaky_platform (event_calls (fresh_world\<lparr>event_calls := 3\<rparr>) + 1)
   \<and> inputUnicodeText flaky_platform ready_keyboard [0x61, 0x62, 0x63] fresh_world
       = (True, fresh_world\<lparr>trace := [Post (KeyboardEvent (Some 0) True 0x62), Sleep 5000,
                                       Post (KeyboardEvent (Some 0) True 0x63),
                                       Post (KeyboardEvent (Some 0) False 0x63), Sleep 5000],
                             event_calls := 5\<rparr>)
   \<and> inputUnicodeText flaky_platform ready_keyboard [0xC3] fresh_world
       = (False, fresh_world\<lparr>trace := [Log CFStringFailed]\<rparr>)"
proof -
  have d: "CFStringCreateWithCString flaky_platform (c_str [0x61, 0x62, 0x63]) = Some [0x61, 0x62, 0x63]"
    "CFStringCreateWithCString flaky_platform (c_str [0xC3]) = None"
    by (simp_all add: flaky_platform_def strict_platform_def c_str_def utf8_to_utf16_def
        utf16_units_def utf16_encode_def)
  have e: "event_created flaky_platform = (\<lambda>n. n \<noteq> 0 \<and> n \<noteq> 2)"
    by (simp add: flaky_platform_def strict_platform_def)
  define w1 where "w1 = fresh_world\<lparr>event_calls := 1\<rparr>"
  define w3 where "w3 = fresh_world\<lparr>trace := [Post (KeyboardEvent (Some 0) True 0x62), Sleep 5000],
                           event_calls := 3\<rparr>"
  have h1: "\<not> event_created flaky_platform (event_calls fresh_world)"
    by (simp add: e fresh_world_def)
  have h2: "event_created flaky_platform (event_calls w1)
      \<and> \<not> event_created flaky_platform (event_calls w1 + 1)"
    by (simp add: e w1_def)
  have h3: "event_created flaky_platform (event_calls w3)
      \<and> event_created flaky_platform (event_calls w3 + 1)"
    by (simp add: e w3_def)
  have "inputUnicodeText_loop flaky_platform ready_keyboard [0x61, 0x62, 0x63] fresh_world
      = inputUnicodeText_loop flaky_platform ready_keyboard [0x62, 0x63] w1"
    using chunk_delivery_fails_only_on_decode
      [of flaky_platform ready_keyboard "[]" fresh_world "0x61" "[0x62, 0x63]"] h1
    by (simp add: w1_def fresh_world_def del: inputUnicodeText_loop.simps)
  also have "\<dots> = inputUnicodeText_loop flaky_platform ready_keyboard [0x63] w3"
    using chunk_delivery_fails_only_on_decode
      [of flaky_platform ready_keyboard "[]" w1 "0x62" "[0x63]"] h2
    by (simp add: w1_def w3_def fresh_world_def ready_keyboard_def numeral_3_eq_3 [symmetric]
        del: inputUnicodeText_loop.simps)
  also have "\<dots> = inputUnicodeText_loop flaky_platform ready_keyboard []
      (fresh_world\<lparr>trace := [Post (KeyboardEvent (Some 0) True 0x62), Sleep 5000,
                                       Post (KeyboardEvent (Some 0) True 0x63),
                                       Post (KeyboardEvent (Some 0) False 0x63), Sleep 5000],
                             event_calls := 5\<rparr>)"
    using chunk_delivery_fails_only_on_decode
      [of flaky_platform ready_keyboard "[]" w3 "0x63" "[]"] h3
    by (simp add: w3_def fresh_world_def ready_keyboard_def
        del: inputUnicodeText_loop.simps)
  finally have l: "inputUnicodeText_loop flaky_platform ready_keyboard [0x61, 0x62, 0x63] fresh_world
      = fresh_world\<lparr>trace := [Post (KeyboardEvent (Some 0) True 0x62), Sleep 5000,
                                       Post (KeyboardEvent (Some 0) True 0x63),
                                       Post (KeyboardEvent (Some 0) False 0x63), Sleep 5000],
                             event_calls := 5\<rparr>"
    by simp
  have f: "\<not> fst (inputUnicodeText flaky_platform ready_keyboard [0xC3] fresh_world)"
    using chunk_delivery_fails_only_on_decode
      [of flaky_platform ready_keyboard "[0xC3]" fresh_world "0x61" "[]"] d(2)
    by simp
  show ?thesis
    using h1 h2 h3 l d f
    by (simp add: w1_def w3_def inputUnicodeText_def emit_def fresh_world_def
        del: inputUnicodeText_loop.simps)
qed

end
